theory Spec2Isabelle
  imports Main
begin

section \<open>Strings and the JavaScript library functions the program calls\<close>

text \<open>
  A JavaScript string is modelled as a \<^typ>\<open>string\<close>: a list of code units below 256.
  The functions of this section stand for built-ins of the language (\<open>trim\<close>,
  \<open>toLowerCase\<close>, \<open>parseInt\<close>, template-literal conversion of a number, the
  regular expression classes \<open>\s\<close>, \<open>\w\<close> and \<open>.\<close>).
\<close>

definition nl :: char where
  "nl = CHR 0x0A"

definition isSpace :: "char \<Rightarrow> bool" where
  \<comment> \<open>white space and line terminators, as \<open>trim\<close> and \<open>parseInt\<close> strip them\<close>
  "isSpace c = (c = CHR 0x09 \<or> c = CHR 0x0A \<or> c = CHR 0x0B \<or> c = CHR 0x0C \<or> c = CHR 0x0D
     \<or> c = CHR 0x20 \<or> c = CHR 0xA0)"

definition isWord :: "char \<Rightarrow> bool" where
  \<comment> \<open>the class \<open>\w\<close>: letters, digits and the underscore\<close>
  "isWord c = (let n = (of_char c :: nat) in
     (48 \<le> n \<and> n \<le> 57) \<or> (65 \<le> n \<and> n \<le> 90) \<or> n = 95 \<or> (97 \<le> n \<and> n \<le> 122))"

definition isDigit :: "char \<Rightarrow> bool" where
  "isDigit c = (let n = (of_char c :: nat) in 48 \<le> n \<and> n \<le> 57)"

definition trim :: "string \<Rightarrow> string" where
  "trim s = rev (dropWhile isSpace (rev (dropWhile isSpace s)))"

definition lowerChar :: "char \<Rightarrow> char" where
  "lowerChar c = (let n = (of_char c :: nat) in
     if (65 \<le> n \<and> n \<le> 90) \<or> (192 \<le> n \<and> n \<le> 222 \<and> n \<noteq> 215) then char_of (n + 32) else c)"

definition toLowerCase :: "string \<Rightarrow> string" where
  "toLowerCase s = map lowerChar s"

definition digitChar :: "nat \<Rightarrow> char" where
  "digitChar d = ''0123456789'' ! (d mod 10)"

fun string_of_nat :: "nat \<Rightarrow> string" where
  "string_of_nat n =
     (if n < 10 then [digitChar n] else string_of_nat (n div 10) @ [digitChar (n mod 10)])"

declare string_of_nat.simps [simp del]

definition string_of_int :: "int \<Rightarrow> string" where
  "string_of_int i = (if i < 0 then CHR ''-'' # string_of_nat (nat (- i)) else string_of_nat (nat i))"

text \<open>
  A number as the program holds an id: an integer, or \<open>NaN\<close> (\<open>None\<close>), which is what
  \<open>parseInt\<close> gives for text with no leading digits. \<open>parseInt\<close> with no radix skips
  leading white space, reads an optional sign, then (after an optional \<open>0x\<close>) the longest
  run of digits, and ignores whatever follows.
\<close>

type_synonym number = "int option"

definition show_number :: "number \<Rightarrow> string" where
  "show_number n = (case n of None \<Rightarrow> ''NaN'' | Some i \<Rightarrow> string_of_int i)"

definition digitVal :: "char \<Rightarrow> nat" where
  "digitVal c = of_char c - 48"

definition isHexDigit :: "char \<Rightarrow> bool" where
  "isHexDigit c = (let n = (of_char c :: nat) in
     (48 \<le> n \<and> n \<le> 57) \<or> (65 \<le> n \<and> n \<le> 70) \<or> (97 \<le> n \<and> n \<le> 102))"

definition hexVal :: "char \<Rightarrow> nat" where
  "hexVal c = (let n = (of_char c :: nat) in
     if n \<le> 57 then n - 48 else if n \<le> 70 then n - 55 else n - 87)"

definition readDigits :: "nat \<Rightarrow> (char \<Rightarrow> bool) \<Rightarrow> (char \<Rightarrow> nat) \<Rightarrow> string \<Rightarrow> nat option" where
  "readDigits radix ok val s =
     (let ds = takeWhile ok s in
      if ds = [] then None else Some (foldl (\<lambda>a c. a * radix + val c) 0 ds))"

definition parseUnsigned :: "string \<Rightarrow> nat option" where
  "parseUnsigned s =
     (case s of
        c # d # r \<Rightarrow>
          (if c = CHR ''0'' \<and> (d = CHR ''x'' \<or> d = CHR ''X'')
           then readDigits 16 isHexDigit hexVal r
           else readDigits 10 isDigit digitVal s)
      | _ \<Rightarrow> readDigits 10 isDigit digitVal s)"

definition parseInt :: "string \<Rightarrow> number" where
  "parseInt s =
     (case dropWhile isSpace s of
        [] \<Rightarrow> None
      | c # r \<Rightarrow>
          (if c = CHR ''-'' then map_option (\<lambda>n. - int n) (parseUnsigned r)
           else if c = CHR ''+'' then map_option int (parseUnsigned r)
           else map_option int (parseUnsigned (c # r))))"

section \<open>The regular expression of \<open>updateSSHConfig\<close>\<close>

text \<open>
  The removal pattern is \<open>\nHost github.com-ALIAS[\s\S]*?(?=\n\w|$)\<close> with the flag \<open>g\<close>
  and no flag \<open>m\<close>: a newline, the header text (whose dot is the regular expression
  dot), then the shortest run of any characters up to a position that is followed by a
  newline and a word character, or that is the end of the text.
  The alias is pasted into the pattern unescaped. For an alias without regular
  expression operators the pattern is a sequence of single characters, modelled here;
  for any other alias the result of compiling and applying the pattern is taken from the
  environment (see \<open>js_regex\<close> below).
\<close>

datatype atom = Lit char | Dot

fun atom_matches :: "atom \<Rightarrow> char \<Rightarrow> bool" where
  "atom_matches (Lit c) d = (c = d)"
| "atom_matches Dot d = (d \<noteq> CHR 0x0A \<and> d \<noteq> CHR 0x0D)"

fun match_prefix :: "atom list \<Rightarrow> string \<Rightarrow> string option" where
  "match_prefix [] s = Some s"
| "match_prefix (a # as) [] = None"
| "match_prefix (a # as) (c # s) = (if atom_matches a c then match_prefix as s else None)"

fun lookahead :: "string \<Rightarrow> bool" where
  \<comment> \<open>\<open>(?=\n\w|$)\<close>\<close>
  "lookahead [] = True"
| "lookahead (c # s) = (c = nl \<and> (case s of [] \<Rightarrow> False | d # _ \<Rightarrow> isWord d))"

fun lazy_any :: "string \<Rightarrow> string" where
  \<comment> \<open>\<open>[\s\S]*?\<close> before the lookahead: what is left, from the first position where it holds\<close>
  "lazy_any [] = []"
| "lazy_any (c # s) = (if lookahead (c # s) then c # s else lazy_any s)"

function replace_empty :: "atom list \<Rightarrow> string \<Rightarrow> string" where
  \<comment> \<open>\<open>text.replace(regex, "")\<close> with the flag \<open>g\<close>: matches are searched left to right,
      each search starting where the previous match ended (one further after an empty match)\<close>
  "replace_empty p [] = []"
| "replace_empty p (c # s) =
     (case match_prefix p (c # s) of
        None \<Rightarrow> c # replace_empty p s
      | Some r \<Rightarrow>
          (if length (lazy_any r) < length (c # s) then replace_empty p (lazy_any r)
           else c # replace_empty p s))"
  by pat_completeness auto
termination
  by (relation "measure (\<lambda>(p, s). length s)") auto

definition regexOperators :: "char set" where
  "regexOperators = set (CHR 0x5C # ''^$.*+?()[]{}|'')"

definition plain :: "string \<Rightarrow> bool" where
  "plain a = list_all (\<lambda>c. c \<notin> regexOperators) a"

definition header_pattern :: "string \<Rightarrow> atom list" where
  "header_pattern a =
     Lit nl # map Lit ''Host github'' @ Dot # map Lit ''com-'' @ map Lit a"

section \<open>The registry and the stores around it (the edition with aliases)\<close>

text \<open>
  The data of the edition of the program that takes \<open>--alias\<close> and edits the SSH client
  configuration. \<open>config\<close> is the registry as the program holds it in memory;
  \<open>config_file\<close> is what \<open>~/.gitmt/config.json\<close> holds (\<open>None\<close>: no file) \<emdash> the
  registry last given to \<open>JSON.stringify\<close>; \<open>ssh_config_file\<close> is the SSH client
  configuration; \<open>fs_files\<close> are the other files (the key files), by path;
  \<open>git_global\<close> is the global git configuration, by key; \<open>console\<close> is what was
  printed (\<open>console.log\<close> and \<open>console.error\<close> alike).

  The model takes the file system to work: reading and writing the registry file and the
  SSH client configuration succeed, and the registry file, when there is one, parses to
  a registry whose ids are whole numbers. An id is an \<^typ>\<open>int\<close>; the program's numbers
  are doubles, which agree with it below \<open>2^53\<close>. \<open>path.join\<close> is modelled as joining
  with a slash, which it is for an alias or name without slashes and dot segments. All
  that comes from outside one run is in \<open>ext\<close>, and every property below holds for
  every \<open>ext\<close> unless it says otherwise.
\<close>

record user =
  uid :: int
  name :: string
  email :: string
  "alias" :: string
  sshKeyPath :: string

record config =
  users :: "user list"
  activeUser :: number

record state =
  config :: config
  config_file :: "config option"
  ssh_config_file :: "string option"
  fs_files :: "string \<rightharpoonup> string"
  git_global :: "string \<rightharpoonup> string"
  console :: "string list"

datatype error = SyntaxError | ChildProcessError | GitError | PromptError | TypeError | UnlinkError

datatype outcome = Returned | Threw error

text \<open>
  What one run of the program meets outside itself: the home directory, the answer to
  the confirmation prompt (\<open>None\<close>: the prompt is aborted, which throws), the two files
  \<open>ssh-keygen\<close> writes (\<open>None\<close>: the child process fails), whether git accepts a
  write of a key, whether a file can be unlinked, and what the regular expression
  engine does with a pattern built from an alias that has operators in it (\<open>None\<close>: it
  does not compile).
\<close>

record ext =
  homedir :: string
  confirm :: "bool option"
  ssh_keygen :: "(string \<times> string) option"
  addConfig_ok :: "string \<Rightarrow> bool"
  unlink_ok :: "string \<Rightarrow> bool"
  js_regex :: "string \<Rightarrow> string \<Rightarrow> string option"
  error_message :: "error \<Rightarrow> string"

definition then_do :: "outcome \<times> 's \<Rightarrow> ('s \<Rightarrow> outcome \<times> 's) \<Rightarrow> outcome \<times> 's" where
  \<comment> \<open>one statement after the other: an exception skips what follows\<close>
  "then_do r f = (case r of (Returned, s) \<Rightarrow> f s | (Threw e, s) \<Rightarrow> (Threw e, s))"

definition log :: "string \<Rightarrow> state \<Rightarrow> state" where
  "log line s = s\<lparr>console := console s @ [line]\<rparr>"

definition SSH_DIR :: "ext \<Rightarrow> string" where
  "SSH_DIR x = homedir x @ ''/.ssh''"

definition existsSync :: "state \<Rightarrow> string \<Rightarrow> bool" where
  "existsSync s p = (fs_files s p \<noteq> None)"

definition initial_config :: config where
  "initial_config = \<lparr>users = [], activeUser = None\<rparr>"

definition load :: "state \<Rightarrow> state" where
  \<comment> \<open>the start of every run: the registry is the file's, or the empty one\<close>
  "load s = s\<lparr>config := (case config_file s of None \<Rightarrow> initial_config | Some c \<Rightarrow> c)\<rparr>"

definition saveConfig :: "state \<Rightarrow> state" where
  "saveConfig s = s\<lparr>config_file := Some (config s)\<rparr>"

definition stanza :: "string \<Rightarrow> string \<Rightarrow> string" where
  "stanza a keyPath =
     [nl] @ ''Host github.com-'' @ a @ [nl] @
     ''    HostName github.com'' @ [nl] @
     ''    User git'' @ [nl] @
     ''    IdentityFile '' @ keyPath @ [nl] @
     ''    IdentitiesOnly yes'' @ [nl]"

definition remove_blocks :: "ext \<Rightarrow> string \<Rightarrow> string \<Rightarrow> string option" where
  "remove_blocks x a text =
     (if plain a then Some (replace_empty (header_pattern a) text) else js_regex x a text)"

definition updateSSHConfig :: "ext \<Rightarrow> string \<Rightarrow> string \<Rightarrow> bool \<Rightarrow> state \<Rightarrow> outcome \<times> state" where
  "updateSSHConfig x a keyPath isRemove s =
     (let sshConfig = (case ssh_config_file s of None \<Rightarrow> [] | Some t \<Rightarrow> t) in
      if isRemove then
        (case remove_blocks x a sshConfig of
           None \<Rightarrow> (Threw SyntaxError, s)
         | Some t \<Rightarrow> (Returned, s\<lparr>ssh_config_file := Some (trim t @ [nl])\<rparr>))
      else (Returned, s\<lparr>ssh_config_file := Some (trim (sshConfig @ stanza a keyPath) @ [nl])\<rparr>))"

definition addConfig :: "ext \<Rightarrow> string \<Rightarrow> string \<Rightarrow> state \<Rightarrow> outcome \<times> state" where
  "addConfig x key v s =
     (if addConfig_ok x key then (Returned, s\<lparr>git_global := (git_global s)(key \<mapsto> v)\<rparr>)
      else (Threw GitError, s))"

definition setGitConfig :: "ext \<Rightarrow> string \<Rightarrow> string \<Rightarrow> state \<Rightarrow> outcome \<times> state" where
  "setGitConfig x n e s =
     then_do (addConfig x ''user.name'' n s) (addConfig x ''user.email'' e)"

section \<open>The commands (the edition with aliases)\<close>

fun findIndex :: "('a \<Rightarrow> bool) \<Rightarrow> 'a list \<Rightarrow> nat option" where
  \<comment> \<open>\<open>Array.prototype.findIndex\<close>; \<open>None\<close> is its -1\<close>
  "findIndex P [] = None"
| "findIndex P (u # us) = (if P u then Some 0 else map_option Suc (findIndex P us))"

definition splice1 :: "nat \<Rightarrow> 'a list \<Rightarrow> 'a list" where
  \<comment> \<open>\<open>xs.splice(i, 1)\<close>, for what it leaves in \<open>xs\<close>\<close>
  "splice1 i xs = take i xs @ drop (Suc i) xs"

definition falsy :: "number \<Rightarrow> bool" where
  \<comment> \<open>\<open>!n\<close> for \<open>null\<close> (or \<open>NaN\<close>) and for a number\<close>
  "falsy n = (n = None \<or> n = Some 0)"

definition has_id :: "number \<Rightarrow> user \<Rightarrow> bool" where
  \<comment> \<open>\<open>u.id === userId\<close>: \<open>NaN\<close> equals nothing\<close>
  "has_id userId u = (userId = Some (uid u))"

definition execSync_keygen :: "ext \<Rightarrow> string \<Rightarrow> state \<Rightarrow> outcome \<times> state" where
  "execSync_keygen x keyPath s =
     (case ssh_keygen x of
        None \<Rightarrow> (Threw ChildProcessError, s)
      | Some (priv, pub) \<Rightarrow>
          (Returned, s\<lparr>fs_files := (fs_files s)(keyPath \<mapsto> priv, keyPath @ ''.pub'' \<mapsto> pub)\<rparr>))"

definition generate_key :: "ext \<Rightarrow> string \<Rightarrow> string \<Rightarrow> state \<Rightarrow> outcome \<times> state" where
  \<comment> \<open>the block under \<open>if (!existsSync(sshKeyPath))\<close> of \<open>add\<close>\<close>
  "generate_key x a keyPath s =
     (case confirm x of
        None \<Rightarrow> (Threw PromptError, s)
      | Some False \<Rightarrow> (Returned, s)
      | Some True \<Rightarrow>
          then_do (execSync_keygen x keyPath s) (\<lambda>s.
          then_do (updateSSHConfig x a keyPath False (log (''SSH key generated at: '' @ keyPath) s)) (\<lambda>s.
          (Returned,
           log (''git clone git@github.com-'' @ a @ '':username/repo.git'')
             (log ''SSH config updated. You can now clone repositories using:'' s)))))"

definition add :: "ext \<Rightarrow> string \<Rightarrow> string \<Rightarrow> string \<Rightarrow> state \<Rightarrow> outcome \<times> state" where
  "add x n e a s =
     (let keyPath = SSH_DIR x @ ''/'' @ ''id_rsa_gitmt_'' @ toLowerCase a in
      then_do (if \<not> existsSync s keyPath then generate_key x a keyPath s else (Returned, s)) (\<lambda>s.
      let userId = int (length (users (config s))) + 1;
          u = \<lparr>uid = userId, name = n, email = e, alias = a, sshKeyPath = keyPath\<rparr>;
          s = s\<lparr>config := (config s)\<lparr>users := users (config s) @ [u]\<rparr>\<rparr>
      in
      then_do (if falsy (activeUser (config s))
               then setGitConfig x n e (s\<lparr>config := (config s)\<lparr>activeUser := Some userId\<rparr>\<rparr>)
               else (Returned, s)) (\<lambda>s.
      then_do (updateSSHConfig x n keyPath False s) (\<lambda>s.
      (Returned,
       log (''Added user '' @ n @ '' (ID: '' @ string_of_int userId @ '')'') (saveConfig s))))))"

definition current :: "state \<Rightarrow> outcome \<times> state" where
  "current s =
     (if falsy (activeUser (config s)) then (Returned, log ''No active git user'' s)
      else
        (case find (has_id (activeUser (config s))) (users (config s)) of
           None \<Rightarrow> (Threw TypeError, s)
         | Some u \<Rightarrow>
             (Returned,
              log (''Current active user: '' @ name u @ '' <'' @ email u @ ''> (ID: ''
                     @ string_of_int (uid u) @ '')'') s)))"

definition unlinkSync :: "ext \<Rightarrow> string \<Rightarrow> state \<Rightarrow> outcome \<times> state" where
  "unlinkSync x p s =
     (if unlink_ok x p then (Returned, s\<lparr>fs_files := (fs_files s)(p := None)\<rparr>)
      else (Threw UnlinkError, s))"

definition remove_keys :: "ext \<Rightarrow> user \<Rightarrow> state \<Rightarrow> state" where
  \<comment> \<open>the \<open>try\<close> block of \<open>remove\<close> with its \<open>catch\<close>, which lets nothing escape\<close>
  "remove_keys x u s =
     (case
        then_do (if existsSync s (sshKeyPath u) then unlinkSync x (sshKeyPath u) s else (Returned, s)) (\<lambda>s.
        then_do (if existsSync s (sshKeyPath u @ ''.pub'') then unlinkSync x (sshKeyPath u @ ''.pub'') s
                 else (Returned, s)) (\<lambda>s.
        then_do (updateSSHConfig x (alias u) [] True s) (\<lambda>s.
        (Returned, log (''SSH keys and config removed for '' @ name u) s))))
      of
        (Returned, s') \<Rightarrow> s'
      | (Threw err, s') \<Rightarrow> log (''Error removing SSH keys: '' @ error_message x err) s')"

definition remove :: "ext \<Rightarrow> string \<Rightarrow> state \<Rightarrow> outcome \<times> state" where
  "remove x idArg s =
     (let userId = parseInt idArg in
      case findIndex (has_id userId) (users (config s)) of
        None \<Rightarrow> (Returned, log (''No user found with ID '' @ show_number userId) s)
      | Some userIndex \<Rightarrow>
          (let u = users (config s) ! userIndex in
           then_do
             (if existsSync s (sshKeyPath u) \<or> existsSync s (sshKeyPath u @ ''.pub'') then
                (case confirm x of
                   None \<Rightarrow> (Threw PromptError, s)
                 | Some False \<Rightarrow> (Returned, s)
                 | Some True \<Rightarrow> (Returned, remove_keys x u s))
              else (Returned, s)) (\<lambda>s.
           let c = config s;
               c = c\<lparr>users := splice1 userIndex (users c)\<rparr>;
               c = (if activeUser c = userId then c\<lparr>activeUser := None\<rparr> else c)
           in
           then_do (updateSSHConfig x (name u) (sshKeyPath u) True (s\<lparr>config := c\<rparr>)) (\<lambda>s.
           (Returned,
            log (''Removed user '' @ name u @ '' (ID: '' @ show_number userId @ '')'') (saveConfig s))))))"

definition change :: "ext \<Rightarrow> string \<Rightarrow> state \<Rightarrow> outcome \<times> state" where
  "change x idArg s =
     (let userId = parseInt idArg in
      case find (has_id userId) (users (config s)) of
        None \<Rightarrow> (Returned, log (''No user found with ID '' @ show_number userId) s)
      | Some u \<Rightarrow>
          then_do (setGitConfig x (name u) (email u) (s\<lparr>config := (config s)\<lparr>activeUser := userId\<rparr>\<rparr>)) (\<lambda>s.
          (Returned,
           log (''Switched to user: '' @ name u @ '' <'' @ email u @ ''>'') (saveConfig s))))"

definition list_line :: "config \<Rightarrow> user \<Rightarrow> string list" where
  "list_line c u =
     [string_of_int (uid u) @ ''. '' @ name u @ '' <'' @ email u @ ''> ['' @ alias u @ ''] ''
        @ (if has_id (activeUser c) u then ''(active)'' else []),
      ''   Clone URL format: git clone git@github.com-'' @ alias u @ '':username/repo.git'']"

definition list_users :: "state \<Rightarrow> outcome \<times> state" where
  \<comment> \<open>the command \<open>list\<close>\<close>
  "list_users s =
     (if length (users (config s)) = 0 then (Returned, log ''No users configured'' s)
      else
        (Returned,
         s\<lparr>console := console s @ ''Configured git users:''
            # concat (map (list_line (config s)) (users (config s)))\<rparr>))"

definition key :: "string \<Rightarrow> state \<Rightarrow> outcome \<times> state" where
  "key idArg s =
     (let userId = parseInt idArg in
      case find (has_id userId) (users (config s)) of
        None \<Rightarrow> (Returned, log (''No user found with ID '' @ show_number userId) s)
      | Some u \<Rightarrow>
          (case fs_files s (sshKeyPath u @ ''.pub'') of
             None \<Rightarrow> (Returned, log (''No SSH key found for user '' @ name u) s)
           | Some publicKey \<Rightarrow>
               (Returned, log publicKey (log (''Public SSH key for '' @ name u @ '':'') s))))"

datatype command =
  Add string string string | Current | Remove string | Change string | List | Key string

fun exec :: "ext \<Rightarrow> command \<Rightarrow> state \<Rightarrow> outcome \<times> state" where
  "exec x (Add n e a) s = add x n e a s"
| "exec x Current s = current s"
| "exec x (Remove i) s = remove x i s"
| "exec x (Change i) s = change x i s"
| "exec x List s = list_users s"
| "exec x (Key i) s = key i s"

definition run :: "ext \<Rightarrow> command \<Rightarrow> state \<Rightarrow> outcome \<times> state" where
  \<comment> \<open>one invocation of the program: load the registry, then the command\<close>
  "run x cmd s = exec x cmd (load s)"

fun runs :: "(ext \<times> command) list \<Rightarrow> state \<Rightarrow> state" where
  \<comment> \<open>one invocation after the other, each in the stores the previous one left\<close>
  "runs [] s = s"
| "runs ((x, cmd) # rest) s = runs rest (snd (run x cmd s))"

section \<open>The edition with the saved global configuration (\<open>bin/gitmt.js\<close>)\<close>

text \<open>
  The other edition of the program has no alias and no SSH client configuration; it has
  a \<open>--local\<close> flag and keeps, in the registry, a copy of the global git identity.
  Its names carry a \<open>g\<close> or end in \<open>_bin\<close>. A value read from git is a string or
  \<open>null\<close>; whether reading a key throws is the git library's decision, taken from the
  environment (\<open>getConfig_throws\<close>, given the store and the key). The library the
  program uses answers \<open>null\<close> for a key that is not set and throws only when git itself
  fails; the properties that hold for every environment do not depend on this.
\<close>

record guser =
  gid :: int
  gname :: string
  gemail :: string
  gsshKeyPath :: string

record saved_identity =
  saved_name :: "string option"
  saved_email :: "string option"

record gconfig =
  gusers :: "guser list"
  gactiveUser :: number
  globalConfig :: "saved_identity option"

record gstate =
  gconfig :: gconfig
  gconfig_file :: "gconfig option"
  gfs_files :: "string \<rightharpoonup> string"
  ggit_global :: "string \<rightharpoonup> string"
  ggit_local :: "string \<rightharpoonup> string"
  gconsole :: "string list"

datatype scope = Global | Local

record gext =
  ghomedir :: string
  gconfirm :: "bool option"
  gssh_keygen :: "(string \<times> string) option"
  getConfig_throws :: "(string \<rightharpoonup> string) \<Rightarrow> string \<Rightarrow> bool"
  gaddConfig_ok :: "scope \<Rightarrow> string \<Rightarrow> bool"
  gunlink_ok :: "string \<Rightarrow> bool"
  gerror_message :: "error \<Rightarrow> string"

definition glog :: "string \<Rightarrow> gstate \<Rightarrow> gstate" where
  "glog line s = s\<lparr>gconsole := gconsole s @ [line]\<rparr>"

definition initial_gconfig :: gconfig where
  "initial_gconfig = \<lparr>gusers = [], gactiveUser = None, globalConfig = None\<rparr>"

definition gload :: "gstate \<Rightarrow> gstate" where
  "gload s = s\<lparr>gconfig := (case gconfig_file s of None \<Rightarrow> initial_gconfig | Some c \<Rightarrow> c)\<rparr>"

definition saveConfig_bin :: "gstate \<Rightarrow> gstate" where
  "saveConfig_bin s = s\<lparr>gconfig_file := Some (gconfig s)\<rparr>"

definition getConfig :: "gext \<Rightarrow> string \<Rightarrow> gstate \<Rightarrow> error + string option" where
  \<comment> \<open>\<open>(await git.getConfig(key, "global")).value\<close>\<close>
  "getConfig x k s = (if getConfig_throws x (ggit_global s) k then Inl GitError else Inr (ggit_global s k))"

definition saveGlobalGitConfig :: "gext \<Rightarrow> gstate \<Rightarrow> gstate" where
  \<comment> \<open>the \<open>try\<close> with its \<open>catch\<close>: nothing escapes\<close>
  "saveGlobalGitConfig x s =
     (case getConfig x ''user.name'' s of
        Inl err \<Rightarrow> glog ''No global git config found'' s
      | Inr userName \<Rightarrow>
          (case getConfig x ''user.email'' s of
             Inl err \<Rightarrow> glog ''No global git config found'' s
           | Inr userEmail \<Rightarrow>
               saveConfig_bin
                 (s\<lparr>gconfig := (gconfig s)\<lparr>globalConfig :=
                      Some \<lparr>saved_name = userName, saved_email = userEmail\<rparr>\<rparr>\<rparr>)))"

definition addConfig_bin :: "gext \<Rightarrow> string \<Rightarrow> string \<Rightarrow> scope \<Rightarrow> gstate \<Rightarrow> outcome \<times> gstate" where
  "addConfig_bin x k v sc s =
     (if gaddConfig_ok x sc k then
        (Returned,
         case sc of
           Global \<Rightarrow> s\<lparr>ggit_global := (ggit_global s)(k \<mapsto> v)\<rparr>
         | Local \<Rightarrow> s\<lparr>ggit_local := (ggit_local s)(k \<mapsto> v)\<rparr>)
      else (Threw GitError, s))"

definition setGitConfig_bin :: "gext \<Rightarrow> string \<Rightarrow> string \<Rightarrow> scope \<Rightarrow> gstate \<Rightarrow> outcome \<times> gstate" where
  "setGitConfig_bin x n e sc s =
     (let s = (if globalConfig (gconfig s) = None then saveGlobalGitConfig x s else s) in
      then_do (addConfig_bin x ''user.name'' n sc s) (addConfig_bin x ''user.email'' e sc))"

function spaces_to_underscore :: "string \<Rightarrow> string" where
  \<comment> \<open>\<open>.replace(/\s+/g, "_")\<close>: every run of white space becomes one underscore\<close>
  "spaces_to_underscore [] = []"
| "spaces_to_underscore (c # s) =
     (if isSpace c then CHR ''_'' # spaces_to_underscore (dropWhile isSpace s)
      else c # spaces_to_underscore s)"
  by pat_completeness auto
termination
  by (relation "measure length") (auto simp: length_dropWhile_le less_Suc_eq_le)

definition ghas_id :: "number \<Rightarrow> guser \<Rightarrow> bool" where
  "ghas_id userId u = (userId = Some (gid u))"

definition scope_of :: "bool \<Rightarrow> scope" where
  \<comment> \<open>\<open>options.local ? "local" : "global"\<close>\<close>
  "scope_of local = (if local then Local else Global)"

definition generate_key_bin :: "gext \<Rightarrow> string \<Rightarrow> gstate \<Rightarrow> outcome \<times> gstate" where
  "generate_key_bin x keyPath s =
     (case gconfirm x of
        None \<Rightarrow> (Threw PromptError, s)
      | Some False \<Rightarrow> (Returned, s)
      | Some True \<Rightarrow>
          (case gssh_keygen x of
             None \<Rightarrow> (Threw ChildProcessError, s)
           | Some (priv, pub) \<Rightarrow>
               (Returned,
                glog (''SSH key generated at: '' @ keyPath)
                  (s\<lparr>gfs_files := (gfs_files s)(keyPath \<mapsto> priv, keyPath @ ''.pub'' \<mapsto> pub)\<rparr>))))"

definition add_bin :: "gext \<Rightarrow> string \<Rightarrow> string \<Rightarrow> bool \<Rightarrow> gstate \<Rightarrow> outcome \<times> gstate" where
  "add_bin x n e local s =
     (let keyPath = ghomedir x @ ''/.ssh'' @ ''/'' @ ''id_rsa_gitmt_'' @ toLowerCase (spaces_to_underscore n) in
      then_do (if gfs_files s keyPath = None then generate_key_bin x keyPath s else (Returned, s)) (\<lambda>s.
      let userId = int (length (gusers (gconfig s))) + 1;
          u = \<lparr>gid = userId, gname = n, gemail = e, gsshKeyPath = keyPath\<rparr>;
          s = s\<lparr>gconfig := (gconfig s)\<lparr>gusers := gusers (gconfig s) @ [u]\<rparr>\<rparr>
      in
      then_do (if falsy (gactiveUser (gconfig s))
             then setGitConfig_bin x n e (scope_of local)
                    (s\<lparr>gconfig := (gconfig s)\<lparr>gactiveUser := Some userId\<rparr>\<rparr>)
             else (Returned, s)) (\<lambda>s.
      (Returned,
       glog (''Added user '' @ n @ '' (ID: '' @ string_of_int userId @ '')'') (saveConfig_bin s)))))"

definition current_bin :: "gstate \<Rightarrow> outcome \<times> gstate" where
  "current_bin s =
     (if falsy (gactiveUser (gconfig s)) then (Returned, glog ''No active git user'' s)
      else
        (case find (ghas_id (gactiveUser (gconfig s))) (gusers (gconfig s)) of
           None \<Rightarrow> (Threw TypeError, s)
         | Some u \<Rightarrow>
             (Returned,
              glog (''Current active user: '' @ gname u @ '' <'' @ gemail u @ ''> (ID: ''
                      @ string_of_int (gid u) @ '')'') s)))"

definition unlinkSync_bin :: "gext \<Rightarrow> string \<Rightarrow> gstate \<Rightarrow> outcome \<times> gstate" where
  "unlinkSync_bin x p s =
     (if gunlink_ok x p then (Returned, s\<lparr>gfs_files := (gfs_files s)(p := None)\<rparr>)
      else (Threw UnlinkError, s))"

definition remove_keys_bin :: "gext \<Rightarrow> guser \<Rightarrow> gstate \<Rightarrow> gstate" where
  "remove_keys_bin x u s =
     (case
        then_do (if gfs_files s (gsshKeyPath u) \<noteq> None then unlinkSync_bin x (gsshKeyPath u) s
               else (Returned, s)) (\<lambda>s.
        then_do (if gfs_files s (gsshKeyPath u @ ''.pub'') \<noteq> None
               then unlinkSync_bin x (gsshKeyPath u @ ''.pub'') s else (Returned, s)) (\<lambda>s.
        (Returned, glog (''SSH keys removed for '' @ gname u) s)))
      of
        (Returned, s') \<Rightarrow> s'
      | (Threw err, s') \<Rightarrow> glog (''Error removing SSH keys: '' @ gerror_message x err) s')"

definition remove_bin :: "gext \<Rightarrow> string \<Rightarrow> gstate \<Rightarrow> outcome \<times> gstate" where
  "remove_bin x idArg s =
     (let userId = parseInt idArg in
      case findIndex (ghas_id userId) (gusers (gconfig s)) of
        None \<Rightarrow> (Returned, glog (''No user found with ID '' @ show_number userId) s)
      | Some userIndex \<Rightarrow>
          (let u = gusers (gconfig s) ! userIndex in
           then_do
             (if gfs_files s (gsshKeyPath u) \<noteq> None \<or> gfs_files s (gsshKeyPath u @ ''.pub'') \<noteq> None then
                (case gconfirm x of
                   None \<Rightarrow> (Threw PromptError, s)
                 | Some False \<Rightarrow> (Returned, s)
                 | Some True \<Rightarrow> (Returned, remove_keys_bin x u s))
              else (Returned, s)) (\<lambda>s.
           let c = gconfig s;
               c = c\<lparr>gusers := splice1 userIndex (gusers c)\<rparr>;
               c = (if gactiveUser c = userId then c\<lparr>gactiveUser := None\<rparr> else c)
           in
           (Returned,
            glog (''Removed user '' @ gname u @ '' (ID: '' @ show_number userId @ '')'')
              (saveConfig_bin (s\<lparr>gconfig := c\<rparr>))))))"

definition change_bin :: "gext \<Rightarrow> string \<Rightarrow> bool \<Rightarrow> gstate \<Rightarrow> outcome \<times> gstate" where
  "change_bin x idArg local s =
     (let userId = parseInt idArg in
      case find (ghas_id userId) (gusers (gconfig s)) of
        None \<Rightarrow> (Returned, glog (''No user found with ID '' @ show_number userId) s)
      | Some u \<Rightarrow>
          then_do (setGitConfig_bin x (gname u) (gemail u) (scope_of local)
                   (s\<lparr>gconfig := (gconfig s)\<lparr>gactiveUser := userId\<rparr>\<rparr>)) (\<lambda>s.
          (Returned,
           glog (''Switched to user: '' @ gname u @ '' <'' @ gemail u @ ''>'') (saveConfig_bin s))))"

definition list_line_bin :: "gconfig \<Rightarrow> guser \<Rightarrow> string" where
  "list_line_bin c u =
     string_of_int (gid u) @ ''. '' @ gname u @ '' <'' @ gemail u @ ''> ''
       @ (if ghas_id (gactiveUser c) u then ''(active)'' else [])"

definition list_bin :: "gstate \<Rightarrow> outcome \<times> gstate" where
  "list_bin s =
     (if length (gusers (gconfig s)) = 0 then (Returned, glog ''No users configured'' s)
      else
        (Returned,
         s\<lparr>gconsole := gconsole s @ ''Configured git users:''
            # map (list_line_bin (gconfig s)) (gusers (gconfig s))\<rparr>))"

definition show_value :: "string option \<Rightarrow> string" where
  \<comment> \<open>a string or \<open>null\<close> in a template literal\<close>
  "show_value v = (case v of None \<Rightarrow> ''null'' | Some t \<Rightarrow> t)"

definition global_bin :: "gstate \<Rightarrow> outcome \<times> gstate" where
  "global_bin s =
     (case globalConfig (gconfig s) of
        Some g \<Rightarrow>
          (Returned,
           glog (''Email: '' @ show_value (saved_email g))
             (glog (''Name: '' @ show_value (saved_name g)) (glog ''Saved global git config:'' s)))
      | None \<Rightarrow> (Returned, glog ''No saved global git config'' s))"

definition key_bin :: "string \<Rightarrow> gstate \<Rightarrow> outcome \<times> gstate" where
  "key_bin idArg s =
     (let userId = parseInt idArg in
      case find (ghas_id userId) (gusers (gconfig s)) of
        None \<Rightarrow> (Returned, glog (''No user found with ID '' @ show_number userId) s)
      | Some u \<Rightarrow>
          (case gfs_files s (gsshKeyPath u @ ''.pub'') of
             None \<Rightarrow> (Returned, glog (''No SSH key found for user '' @ gname u) s)
           | Some publicKey \<Rightarrow>
               (Returned, glog publicKey (glog (''Public SSH key for '' @ gname u @ '':'') s))))"

datatype gcommand =
  GAdd string string bool | GCurrent | GRemove string | GChange string bool | GList | GGlobal
  | GKey string

fun exec_bin :: "gext \<Rightarrow> gcommand \<Rightarrow> gstate \<Rightarrow> outcome \<times> gstate" where
  "exec_bin x (GAdd n e l) s = add_bin x n e l s"
| "exec_bin x GCurrent s = current_bin s"
| "exec_bin x (GRemove i) s = remove_bin x i s"
| "exec_bin x (GChange i l) s = change_bin x i l s"
| "exec_bin x GList s = list_bin s"
| "exec_bin x GGlobal s = global_bin s"
| "exec_bin x (GKey i) s = key_bin i s"

definition run_bin :: "gext \<Rightarrow> gcommand \<Rightarrow> gstate \<Rightarrow> outcome \<times> gstate" where
  "run_bin x cmd s = exec_bin x cmd (gload s)"

fun runs_bin :: "(gext \<times> gcommand) list \<Rightarrow> gstate \<Rightarrow> gstate" where
  "runs_bin [] s = s"
| "runs_bin ((x, cmd) # rest) s = runs_bin rest (snd (run_bin x cmd s))"

section \<open>What the properties speak about\<close>

text \<open>
  The registry a run starts from is the one in the file; \<open>registry_of\<close> reads it the
  way \<open>load\<close> does.
\<close>

definition registry_of :: "state \<Rightarrow> config" where
  "registry_of s = config (load s)"

definition gregistry_of :: "gstate \<Rightarrow> gconfig" where
  "gregistry_of s = gconfig (gload s)"

definition valid_active :: "config \<Rightarrow> bool" where
  \<comment> \<open>\<open>activeUser\<close> is \<open>null\<close> or the id of a record of \<open>users\<close>\<close>
  "valid_active c = (activeUser c = None \<or> activeUser c \<in> set (map (Some \<circ> uid) (users c)))"

definition gvalid_active :: "gconfig \<Rightarrow> bool" where
  "gvalid_active c = (gactiveUser c = None \<or> gactiveUser c \<in> set (map (Some \<circ> gid) (gusers c)))"

definition unique_aliases :: "config \<Rightarrow> bool" where
  \<comment> \<open>no two records of \<open>users\<close> have the same alias\<close>
  "unique_aliases c = distinct (map alias (users c))"

fun fresh_aliases :: "(ext \<times> command) list \<Rightarrow> state \<Rightarrow> bool" where
  \<comment> \<open>every \<open>add\<close> of the sequence comes with an alias no record has at that moment\<close>
  "fresh_aliases [] s = True"
| "fresh_aliases ((x, cmd) # rest) s =
     ((case cmd of Add n e a \<Rightarrow> a \<notin> set (map alias (users (registry_of s))) | _ \<Rightarrow> True)
      \<and> fresh_aliases rest (snd (run x cmd s)))"

fun read_only :: "command \<Rightarrow> bool" where
  "read_only List = True"
| "read_only Current = True"
| "read_only (Key i) = True"
| "read_only cmd = False"

fun read_only_bin :: "gcommand \<Rightarrow> bool" where
  "read_only_bin GList = True"
| "read_only_bin GCurrent = True"
| "read_only_bin GGlobal = True"
| "read_only_bin (GKey i) = True"
| "read_only_bin cmd = False"

fun lines_of :: "string \<Rightarrow> string list" where
  \<comment> \<open>a text cut at its newlines\<close>
  "lines_of [] = [[]]"
| "lines_of (c # s) =
     (if c = nl then [] # lines_of s
      else (case lines_of s of [] \<Rightarrow> [[c]] | l # ls \<Rightarrow> (c # l) # ls))"

definition stanza_count :: "string \<Rightarrow> string option \<Rightarrow> nat" where
  \<comment> \<open>how many lines of the SSH client configuration are the header \<open>Host github.com-ALIAS\<close>\<close>
  "stanza_count a f =
     (case f of
        None \<Rightarrow> 0
      | Some t \<Rightarrow> length (filter (\<lambda>l. l = ''Host github.com-'' @ a) (lines_of t)))"

definition numeric :: "string \<Rightarrow> bool" where
  \<comment> \<open>the argument is the text of a whole number: digits, with or without a sign before them\<close>
  "numeric t =
     (case t of
        [] \<Rightarrow> False
      | c # r \<Rightarrow>
          (if c = CHR ''-'' \<or> c = CHR ''+'' then r \<noteq> [] \<and> list_all isDigit r
           else list_all isDigit (c # r)))"

text \<open>
  Facts about a run are stated with \<open>ends\<close>: the first predicate holds of the stores
  when the run returns, the second when it throws. \<open>same_registry\<close> says that neither the
  registry in memory nor the file changed. \<open>add_registry\<close> and \<open>remove_registry\<close> are
  what \<open>add\<close> and \<open>remove\<close> write to the file when they get that far.
\<close>

definition ends :: "outcome \<times> 's \<Rightarrow> ('s \<Rightarrow> bool) \<Rightarrow> ('s \<Rightarrow> bool) \<Rightarrow> bool" where
  "ends r P Q = (case r of (Returned, s) \<Rightarrow> P s | (Threw e, s) \<Rightarrow> Q s)"

definition same_registry :: "state \<Rightarrow> state \<Rightarrow> bool" where
  "same_registry s' s = (config s' = config s \<and> config_file s' = config_file s)"

definition add_registry :: "ext \<Rightarrow> string \<Rightarrow> string \<Rightarrow> string \<Rightarrow> config \<Rightarrow> config" where
  "add_registry x n e a c =
     (let userId = int (length (users c)) + 1 in
      c\<lparr>users := users c @ [\<lparr>uid = userId, name = n, email = e, alias = a,
             sshKeyPath = SSH_DIR x @ ''/'' @ ''id_rsa_gitmt_'' @ toLowerCase a\<rparr>],
        activeUser := (if falsy (activeUser c) then Some userId else activeUser c)\<rparr>)"

definition remove_registry :: "number \<Rightarrow> nat \<Rightarrow> config \<Rightarrow> config" where
  "remove_registry userId i c =
     c\<lparr>users := splice1 i (users c),
       activeUser := (if activeUser c = userId then None else activeUser c)\<rparr>"

text \<open>
  A machine on which the program has never run, and surroundings in which every external
  tool works and the prompt is answered with no (\<open>demo_ext\<close>) or yes (\<open>demo_yes\<close>).
\<close>

definition empty_state :: state where
  "empty_state = \<lparr>config = initial_config, config_file = None, ssh_config_file = None,
     fs_files = Map.empty, git_global = Map.empty, console = []\<rparr>"

definition demo_ext :: ext where
  "demo_ext = \<lparr>homedir = ''/home/dev'', confirm = Some False,
     ssh_keygen = Some (''PRIVATE KEY'', ''PUBLIC KEY''), addConfig_ok = (\<lambda>k. True),
     unlink_ok = (\<lambda>p. True), js_regex = (\<lambda>a t. None), error_message = (\<lambda>err. [])\<rparr>"

definition demo_yes :: ext where
  "demo_yes = demo_ext\<lparr>confirm := Some True\<rparr>"

definition empty_gstate :: gstate where
  "empty_gstate = \<lparr>gconfig = initial_gconfig, gconfig_file = None, gfs_files = Map.empty,
     ggit_global = Map.empty, ggit_local = Map.empty, gconsole = []\<rparr>"

text \<open>
  The same for the other edition. In \<open>demo_gext\<close> git works: a read never throws (a key
  that is not set reads as \<open>null\<close>) and every write succeeds. In \<open>no_git_gext\<close> git
  cannot be run: every read throws and every write fails.
\<close>

definition demo_gext :: gext where
  "demo_gext = \<lparr>ghomedir = ''/home/dev'', gconfirm = Some False,
     gssh_keygen = Some (''PRIVATE KEY'', ''PUBLIC KEY''),
     getConfig_throws = (\<lambda>store k. False), gaddConfig_ok = (\<lambda>sc k. True),
     gunlink_ok = (\<lambda>p. True), gerror_message = (\<lambda>err. [])\<rparr>"

definition no_git_gext :: gext where
  "no_git_gext = demo_gext\<lparr>getConfig_throws := (\<lambda>store k. True), gaddConfig_ok := (\<lambda>sc k. False)\<rparr>"

text \<open>
  An id argument from which \<open>parseInt\<close> reads no number: after the leading white space
  and one sign, if there is one, the text does not start with a decimal digit, or it
  starts with \<open>0x\<close> or \<open>0X\<close> and no hexadecimal digit follows.
\<close>

definition after_sign :: "string \<Rightarrow> string" where
  "after_sign t =
     (case dropWhile isSpace t of
        [] \<Rightarrow> []
      | c # r \<Rightarrow> (if c = CHR ''-'' \<or> c = CHR ''+'' then r else c # r))"

definition hex_prefixed :: "string \<Rightarrow> bool" where
  "hex_prefixed u = (case u of c # d # r \<Rightarrow> c = CHR ''0'' \<and> (d = CHR ''x'' \<or> d = CHR ''X'') | _ \<Rightarrow> False)"

definition starts_with :: "(char \<Rightarrow> bool) \<Rightarrow> string \<Rightarrow> bool" where
  "starts_with ok u = (case u of [] \<Rightarrow> False | c # r \<Rightarrow> ok c)"

definition no_number_prefix :: "string \<Rightarrow> bool" where
  "no_number_prefix t =
     (if hex_prefixed (after_sign t) then \<not> starts_with isHexDigit (drop 2 (after_sign t))
      else \<not> starts_with isDigit (after_sign t))"

text \<open>
  Stores in which one identity is registered and active, and stores whose registry file
  names an active id that no record has (a file edited by hand, say).
\<close>

definition ann :: user where
  "ann = \<lparr>uid = 1, name = ''Ann'', email = ''ann@example.org'', alias = ''work'',
     sshKeyPath = ''/home/dev/.ssh/id_rsa_gitmt_work''\<rparr>"

definition one_user_state :: state where
  "one_user_state = empty_state\<lparr>config := \<lparr>users = [ann], activeUser = Some 1\<rparr>,
     config_file := Some \<lparr>users = [ann], activeUser = Some 1\<rparr>\<rparr>"

definition dangling_state :: state where
  "dangling_state = empty_state\<lparr>config := \<lparr>users = [ann], activeUser = Some 3\<rparr>,
     config_file := Some \<lparr>users = [ann], activeUser = Some 3\<rparr>\<rparr>"

definition dangling_gstate :: gstate where
  "dangling_gstate = empty_gstate\<lparr>gconfig := \<lparr>gusers = [], gactiveUser = Some 3, globalConfig = None\<rparr>,
     gconfig_file := Some \<lparr>gusers = [], gactiveUser = Some 3, globalConfig = None\<rparr>\<rparr>"

text \<open>In the other edition: the steps that leave the records and the active id alone.\<close>

definition same_users :: "gstate \<Rightarrow> gstate \<Rightarrow> bool" where
  "same_users t s =
     (gusers (gconfig t) = gusers (gconfig s) \<and> gactiveUser (gconfig t) = gactiveUser (gconfig s))"

text \<open>
  For the copy of the global git identity: \<open>reads_ok\<close> says that git answers when asked
  for a key that is set; \<open>original_kept N E\<close> says of the stores that the identity
  \<open>N\<close>, \<open>E\<close> the developer had is still the global one as long as the registry file
  holds no copy, and that a copy the file holds is \<open>N\<close>, \<open>E\<close>. \<open>snap\<close> adds that the
  registry in memory has the copy the file has, \<open>snapped\<close> that there is one.
  \<open>writes\<close> is the two \<open>addConfig\<close> calls of \<open>setGitConfig\<close>, \<open>git_store\<close> the store
  they write to. \<open>dev_gstate\<close> is a machine with a global identity on which the program
  has never run.
\<close>

definition reads_ok :: "gext \<Rightarrow> bool" where
  "reads_ok x = (\<forall>store k. store k \<noteq> None \<longrightarrow> \<not> getConfig_throws x store k)"

definition original :: "string \<Rightarrow> string \<Rightarrow> saved_identity" where
  "original N E = \<lparr>saved_name = Some N, saved_email = Some E\<rparr>"

definition original_kept :: "string \<Rightarrow> string \<Rightarrow> gstate \<Rightarrow> bool" where
  "original_kept N E s =
     ((globalConfig (gregistry_of s) = None
        \<and> ggit_global s ''user.name'' = Some N \<and> ggit_global s ''user.email'' = Some E)
      \<or> globalConfig (gregistry_of s) = Some (original N E))"

definition snap :: "string \<Rightarrow> string \<Rightarrow> gstate \<Rightarrow> bool" where
  "snap N E t = (globalConfig (gconfig t) = globalConfig (gregistry_of t) \<and> original_kept N E t)"

definition snapped :: "string \<Rightarrow> string \<Rightarrow> gstate \<Rightarrow> bool" where
  "snapped N E t = (snap N E t \<and> globalConfig (gconfig t) \<noteq> None)"

definition dev_gstate :: gstate where
  "dev_gstate = empty_gstate\<lparr>ggit_global := [''user.name'' \<mapsto> ''Dev'', ''user.email'' \<mapsto> ''dev@example.org'']\<rparr>"

definition git_store :: "scope \<Rightarrow> gstate \<Rightarrow> (string \<rightharpoonup> string)" where
  "git_store sc s = (case sc of Global \<Rightarrow> ggit_global s | Local \<Rightarrow> ggit_local s)"

definition writes :: "gext \<Rightarrow> string \<Rightarrow> string \<Rightarrow> scope \<Rightarrow> gstate \<Rightarrow> outcome \<times> gstate" where
  "writes x n e sc s = then_do (addConfig_bin x ''user.name'' n sc s) (addConfig_bin x ''user.email'' e sc)"

definition two_changes :: "(gext \<times> gcommand) list" where
  "two_changes = [(demo_gext, GAdd ''Ann'' ''ann@example.org'' False),
     (demo_gext, GAdd ''Bob'' ''bob@example.org'' False), (demo_gext, GChange ''2'' False)]"

section \<open>Steps and their frames\<close>

lemma then_do_simps [simp]:
  "then_do (Returned, s) f = f s"
  "then_do (Threw e, s) f = (Threw e, s)"
  by (simp_all add: then_do_def)

lemma ends_simps [simp]:
  "ends (Returned, s) P Q = P s"
  "ends (Threw e, s) P Q = Q s"
  by (simp_all add: ends_def)

lemma ends_then_do:
  assumes "ends r P' Q" and "\<And>s'. P' s' \<Longrightarrow> ends (f s') P Q"
  shows "ends (then_do r f) P Q"
proof (cases r)
  case (Pair out s')
  with assms show ?thesis by (cases out) simp_all
qed

lemma ends_weaken:
  assumes "ends r P' Q'" and "\<And>s'. P' s' \<Longrightarrow> P s'" and "\<And>s'. Q' s' \<Longrightarrow> Q s'"
  shows "ends r P Q"
proof (cases r)
  case (Pair out s')
  with assms show ?thesis by (cases out) simp_all
qed

lemma ends_both: "P (snd r) \<Longrightarrow> ends r P P"
  by (cases r; cases "fst r") simp_all

lemma ends_snd: "ends r P P \<Longrightarrow> P (snd r)"
  by (cases r; cases "fst r") simp_all

lemma ends_fst:
  "ends r P Q \<Longrightarrow> (fst r = Returned \<and> P (snd r)) \<or> (fst r \<noteq> Returned \<and> Q (snd r))"
  by (cases r; cases "fst r") simp_all

lemma same_registry_refl [simp]: "same_registry s s"
  by (simp add: same_registry_def)

lemma log_fields [simp]:
  "config (log l s) = config s" "config_file (log l s) = config_file s"
  "ssh_config_file (log l s) = ssh_config_file s" "fs_files (log l s) = fs_files s"
  "git_global (log l s) = git_global s" "console (log l s) = console s @ [l]"
  by (simp_all add: log_def)

lemma log_same [simp]: "same_registry (log l s') s = same_registry s' s"
  by (simp add: same_registry_def)

text \<open>Every step but \<open>saveConfig\<close> leaves the registry, in memory and in the file, as it is.\<close>

lemma updateSSHConfig_same:
  "same_registry s' s \<Longrightarrow>
   ends (updateSSHConfig x a k r s') (\<lambda>t. same_registry t s) (\<lambda>t. same_registry t s)"
  by (rule ends_both) (simp add: updateSSHConfig_def Let_def same_registry_def split: option.splits)

lemma addConfig_same:
  "same_registry s' s \<Longrightarrow>
   ends (addConfig x k v s') (\<lambda>t. same_registry t s) (\<lambda>t. same_registry t s)"
  by (rule ends_both) (simp add: addConfig_def same_registry_def)

lemma setGitConfig_same:
  "same_registry s' s \<Longrightarrow>
   ends (setGitConfig x n e s') (\<lambda>t. same_registry t s) (\<lambda>t. same_registry t s)"
  unfolding setGitConfig_def by (auto intro!: ends_then_do addConfig_same)

lemma execSync_keygen_same:
  "same_registry s' s \<Longrightarrow>
   ends (execSync_keygen x k s') (\<lambda>t. same_registry t s) (\<lambda>t. same_registry t s)"
  by (rule ends_both)
     (simp add: execSync_keygen_def same_registry_def split: option.splits prod.splits)

lemma unlinkSync_same:
  "same_registry s' s \<Longrightarrow>
   ends (unlinkSync x p s') (\<lambda>t. same_registry t s) (\<lambda>t. same_registry t s)"
  by (rule ends_both) (simp add: unlinkSync_def same_registry_def)

lemma generate_key_same:
  "same_registry s' s \<Longrightarrow>
   ends (generate_key x a k s') (\<lambda>t. same_registry t s) (\<lambda>t. same_registry t s)"
  unfolding generate_key_def
  by (cases "confirm x"; cases "the (confirm x)")
     (auto intro!: ends_then_do execSync_keygen_same updateSSHConfig_same)

lemma caught_same:
  "same_registry (case r of (Returned, s') \<Rightarrow> s' | (Threw err, s') \<Rightarrow> log (m err) s') s
     = same_registry (snd r) s"
  by (cases r; cases "fst r") auto

lemma remove_keys_same: "same_registry s' s \<Longrightarrow> same_registry (remove_keys x u s') s"
  unfolding remove_keys_def caught_same
  by (rule ends_snd) (auto intro!: ends_then_do unlinkSync_same updateSSHConfig_same)

section \<open>What the three writing commands do to the registry file\<close>

lemma add_ends:
  "ends (add x n e a s)
     (\<lambda>t. config t = add_registry x n e a (config s)
        \<and> config_file t = Some (add_registry x n e a (config s)))
     (\<lambda>t. config_file t = config_file s)"
  unfolding add_def Let_def
  apply (rule ends_then_do[where P' = "\<lambda>t. same_registry t s"])
   apply (auto intro: ends_weaken[OF generate_key_same] simp: same_registry_def)[1]
  apply (rule ends_then_do[where P' = "\<lambda>t. config t = add_registry x n e a (config s)
           \<and> config_file t = config_file s"])
   apply (auto intro!: ends_weaken[OF setGitConfig_same[OF same_registry_refl]]
      simp: same_registry_def add_registry_def Let_def)[1]
  apply (rule ends_then_do[where P' = "\<lambda>t. config t = add_registry x n e a (config s)
           \<and> config_file t = config_file s"])
   apply (auto intro!: ends_weaken[OF updateSSHConfig_same[OF same_registry_refl]]
      simp: same_registry_def)[1]
  apply (simp add: saveConfig_def)
  done

lemma remove_ends:
  assumes "findIndex (has_id (parseInt idArg)) (users (config s)) = Some i"
  shows "ends (remove x idArg s)
     (\<lambda>t. config_file t = Some (remove_registry (parseInt idArg) i (config s)))
     (\<lambda>t. config_file t = config_file s)"
  unfolding remove_def Let_def assms option.case
  apply (rule ends_then_do[where P' = "\<lambda>t. same_registry t s"])
   apply (cases "confirm x"; cases "the (confirm x)")
     apply (auto simp: same_registry_def
      remove_keys_same[OF same_registry_refl, unfolded same_registry_def])[4]
  apply (rule ends_then_do[where P' = "\<lambda>t. config t = remove_registry (parseInt idArg) i (config s)
           \<and> config_file t = config_file s"])
   apply (rule ends_weaken[OF updateSSHConfig_same[OF same_registry_refl]])
    apply (auto simp: same_registry_def remove_registry_def)[2]
  apply (simp add: saveConfig_def)
  done

lemma change_ends:
  assumes "find (has_id (parseInt idArg)) (users (config s)) = Some u"
  shows "ends (change x idArg s)
     (\<lambda>t. config_file t = Some ((config s)\<lparr>activeUser := parseInt idArg\<rparr>))
     (\<lambda>t. config_file t = config_file s)"
  unfolding change_def Let_def assms option.case
  apply (rule ends_then_do[where P' = "\<lambda>t. config t = (config s)\<lparr>activeUser := parseInt idArg\<rparr>
           \<and> config_file t = config_file s"])
   apply (rule ends_weaken[OF setGitConfig_same[OF same_registry_refl]])
    apply (auto simp: same_registry_def)[2]
  apply (simp add: saveConfig_def)
  done

section \<open>From one run to the next\<close>

lemma findIndex_None: "findIndex P xs = None \<longleftrightarrow> (\<forall>u \<in> set xs. \<not> P u)"
  by (induction xs) auto


lemma findIndex_Some: "findIndex P xs = Some i \<Longrightarrow> i < length xs \<and> P (xs ! i)"
  by (induction xs arbitrary: i) (auto split: if_splits)


lemma findIndex_has_id_None:
  "findIndex (has_id n) us = None \<longleftrightarrow> n \<notin> set (map (Some \<circ> uid) us)"
  by (auto simp: findIndex_None has_id_def)


lemma find_has_id_None:
  "find (has_id n) us = None \<longleftrightarrow> n \<notin> set (map (Some \<circ> uid) us)"
  by (auto simp: find_None_iff has_id_def)


lemma load_fields [simp]:
  "config (load s) = registry_of s" "config_file (load s) = config_file s"
  "ssh_config_file (load s) = ssh_config_file s" "fs_files (load s) = fs_files s"
  "git_global (load s) = git_global s" "console (load s) = console s"
  by (simp_all add: load_def registry_of_def)


lemma registry_of_file:
  "config_file t = config_file s \<Longrightarrow> registry_of t = registry_of s"
  "config_file t = Some c \<Longrightarrow> registry_of t = c"
  by (simp_all add: registry_of_def load_def)


lemma read_only_file:
  "config_file (snd (current s)) = config_file s"
  "config_file (snd (list_users s)) = config_file s"
  "config_file (snd (key i s)) = config_file s"
  by (simp_all add: current_def list_users_def key_def Let_def split: option.splits)


lemma not_found_file:
  "findIndex (has_id (parseInt i)) (users (config s)) = None \<Longrightarrow>
     config_file (snd (remove x i s)) = config_file s"
  "find (has_id (parseInt i)) (users (config s)) = None \<Longrightarrow>
     config_file (snd (change x i s)) = config_file s"
  by (simp_all add: remove_def change_def Let_def)


lemma ends_registry:
  "ends r (\<lambda>t. config_file t = Some c) (\<lambda>t. config_file t = config_file s) \<Longrightarrow>
     registry_of (snd r) = c \<or> registry_of (snd r) = registry_of s"
  by (cases r; cases "fst r") (simp_all add: registry_of_def load_def)


text \<open>One run leaves in the file the registry it found, or one of three others.\<close>


lemma run_registry:
  "registry_of (snd (run x cmd s)) = registry_of s
   \<or> (\<exists>n e a. cmd = Add n e a \<and> registry_of (snd (run x cmd s)) = add_registry x n e a (registry_of s))
   \<or> (\<exists>i k. cmd = Remove i \<and> findIndex (has_id (parseInt i)) (users (registry_of s)) = Some k
         \<and> registry_of (snd (run x cmd s)) = remove_registry (parseInt i) k (registry_of s))
   \<or> (\<exists>i u. cmd = Change i \<and> find (has_id (parseInt i)) (users (registry_of s)) = Some u
         \<and> registry_of (snd (run x cmd s)) = (registry_of s)\<lparr>activeUser := parseInt i\<rparr>)"
proof (cases cmd)
  case (Add n e a)
  have "ends (add x n e a (load s)) (\<lambda>t. config_file t = Some (add_registry x n e a (registry_of s)))
          (\<lambda>t. config_file t = config_file s)"
    using add_ends[of x n e a "load s"] by (rule ends_weaken) simp_all
  from ends_registry[OF this] Add show ?thesis by (simp add: run_def) blast
next
  case Current
  have "config_file (snd (current (load s))) = config_file s"
    using read_only_file(1)[of "load s"] by simp
  then have "registry_of (snd (current (load s))) = registry_of s"
    by (rule registry_of_file(1))
  with Current show ?thesis by (simp add: run_def)
next
  case (Remove i)
  show ?thesis
  proof (cases "findIndex (has_id (parseInt i)) (users (registry_of s))")
    case None
    then have "config_file (snd (remove x i (load s))) = config_file s"
      using not_found_file(1)[of i "load s" x] by simp
    then have "registry_of (snd (remove x i (load s))) = registry_of s"
      by (rule registry_of_file(1))
    with Remove show ?thesis by (simp add: run_def)
  next
    case (Some k)
    have "ends (remove x i (load s)) (\<lambda>t. config_file t = Some (remove_registry (parseInt i) k (registry_of s)))
          (\<lambda>t. config_file t = config_file s)"
      using remove_ends[of i "load s" k x] Some by simp
    from ends_registry[OF this] Remove Some show ?thesis by (simp add: run_def) blast
  qed
next
  case (Change i)
  show ?thesis
  proof (cases "find (has_id (parseInt i)) (users (registry_of s))")
    case None
    then have "config_file (snd (change x i (load s))) = config_file s"
      using not_found_file(2)[of i "load s" x] by simp
    then have "registry_of (snd (change x i (load s))) = registry_of s"
      by (rule registry_of_file(1))
    with Change show ?thesis by (simp add: run_def)
  next
    case (Some u)
    have "ends (change x i (load s)) (\<lambda>t. config_file t = Some ((registry_of s)\<lparr>activeUser := parseInt i\<rparr>))
          (\<lambda>t. config_file t = config_file s)"
      using change_ends[of i "load s" u x] Some by simp
    from ends_registry[OF this] Change Some show ?thesis by (simp add: run_def) blast
  qed
next
  case List
  have "config_file (snd (list_users (load s))) = config_file s"
    using read_only_file(2)[of "load s"] by simp
  then have "registry_of (snd (list_users (load s))) = registry_of s"
    by (rule registry_of_file(1))
  with List show ?thesis by (simp add: run_def)
next
  case (Key i)
  have "config_file (snd (key i (load s))) = config_file s"
    using read_only_file(3)[of i "load s"] by simp
  then have "registry_of (snd (key i (load s))) = registry_of s"
    by (rule registry_of_file(1))
  with Key show ?thesis by (simp add: run_def)
qed



section \<open>Invariants of the registry\<close>

lemma set_splice1: "i < length xs \<Longrightarrow> set xs \<subseteq> insert (xs ! i) (set (splice1 i xs))"
proof -
  assume "i < length xs"
  then have "xs = take i xs @ xs ! i # drop (Suc i) xs" by (rule id_take_nth_drop)
  then have "set xs = set (take i xs @ xs ! i # drop (Suc i) xs)" by simp
  then show ?thesis by (auto simp: splice1_def)
qed

lemma splice1_subset: "set (splice1 i xs) \<subseteq> set xs"
  by (auto simp: splice1_def dest: in_set_takeD in_set_dropD)

lemma valid_add: "valid_active c \<Longrightarrow> valid_active (add_registry x n e a c)"
  by (auto simp: valid_active_def add_registry_def Let_def falsy_def)

lemma valid_remove:
  assumes "valid_active c" and "findIndex (has_id userId) (users c) = Some k"
  shows "valid_active (remove_registry userId k c)"
proof -
  from findIndex_Some[OF assms(2)] have k: "k < length (users c)" and id: "userId = Some (uid (users c ! k))"
    by (simp_all add: has_id_def)
  show ?thesis
  proof (cases "activeUser c = userId")
    case True
    then show ?thesis by (simp add: valid_active_def remove_registry_def)
  next
    case False
    show ?thesis
    proof (cases "activeUser c")
      case None
      then show ?thesis by (simp add: valid_active_def remove_registry_def)
    next
      case (Some a)
      with assms(1) obtain u where u: "u \<in> set (users c)" "activeUser c = Some (uid u)"
        by (auto simp: valid_active_def)
      with False id have "u \<noteq> users c ! k" by auto
      with u(1) set_splice1[OF k] have "u \<in> set (splice1 k (users c))" by auto
      with u(2) False show ?thesis by (auto simp: valid_active_def remove_registry_def)
    qed
  qed
qed

lemma valid_change:
  assumes "find (has_id userId) (users c) = Some u"
  shows "valid_active (c\<lparr>activeUser := userId\<rparr>)"
proof -
  from assms have "u \<in> set (users c)" "has_id userId u"
    by (auto simp: find_Some_iff)
  then show ?thesis by (auto simp: valid_active_def has_id_def)
qed


lemma run_valid: "valid_active (registry_of s) \<Longrightarrow> valid_active (registry_of (snd (run x cmd s)))"
  using run_registry[of x cmd s] by (auto intro: valid_add valid_remove valid_change)

section \<open>Ids from the command line\<close>

lemma parseInt_7: "parseInt ''7'' = Some 7"
  by code_simp

lemma parseInt_1abc: "parseInt ''1abc'' = Some 1"
  by code_simp

lemma readDigits_None:
  "readDigits radix ok val u = None \<longleftrightarrow> \<not> starts_with ok u"
  by (cases u) (simp_all add: readDigits_def starts_with_def Let_def)

lemma parseUnsigned_None:
  "parseUnsigned u = None \<longleftrightarrow>
     (if hex_prefixed u then \<not> starts_with isHexDigit (drop 2 u) else \<not> starts_with isDigit u)"
proof (cases u)
  case Nil
  then show ?thesis by (simp add: parseUnsigned_def hex_prefixed_def readDigits_None)
next
  case (Cons c r)
  show ?thesis
  proof (cases r)
    case Nil
    with Cons show ?thesis by (simp add: parseUnsigned_def hex_prefixed_def readDigits_None)
  next
    case (Cons d r')
    with \<open>u = c # r\<close> show ?thesis
      by (auto simp: parseUnsigned_def hex_prefixed_def readDigits_None)
  qed
qed

lemma sign_is_no_digit: "c = CHR ''-'' \<or> c = CHR ''+'' \<Longrightarrow> \<not> isDigit c \<and> c \<noteq> CHR ''0''"
  by (auto simp: isDigit_def)

lemma parseInt_None_iff: "parseInt t = None \<longleftrightarrow> no_number_prefix t"
proof (cases "dropWhile isSpace t")
  case Nil
  have "after_sign t = []" unfolding after_sign_def Nil by simp
  moreover have "parseInt t = None" unfolding parseInt_def Nil by simp
  ultimately show ?thesis
    by (simp add: no_number_prefix_def hex_prefixed_def starts_with_def)
next
  case (Cons c r)
  show ?thesis
  proof (cases "c = CHR ''-'' \<or> c = CHR ''+''")
    case True
    have "after_sign t = r" unfolding after_sign_def Cons using True by simp
    moreover have "parseInt t = None \<longleftrightarrow> parseUnsigned r = None"
      unfolding parseInt_def Cons using True by auto
    ultimately show ?thesis by (simp add: no_number_prefix_def parseUnsigned_None)
  next
    case False
    have "after_sign t = c # r" unfolding after_sign_def Cons using False by simp
    moreover have "parseInt t = None \<longleftrightarrow> parseUnsigned (c # r) = None"
      unfolding parseInt_def Cons using False by simp
    ultimately show ?thesis by (simp add: no_number_prefix_def parseUnsigned_None)
  qed
qed

section \<open>The reading commands\<close>

lemma read_only_run: "read_only cmd \<Longrightarrow> config_file (snd (run x cmd s)) = config_file s"
  by (cases cmd) (simp_all add: run_def read_only_file)

lemma read_only_runs:
  "list_all read_only (map snd ops) \<Longrightarrow> config_file (runs ops s) = config_file s"
  by (induction ops arbitrary: s) (auto simp: read_only_run)

lemma gload_fields [simp]:
  "gconfig (gload s) = gregistry_of s" "gconfig_file (gload s) = gconfig_file s"
  "gfs_files (gload s) = gfs_files s" "ggit_global (gload s) = ggit_global s"
  "ggit_local (gload s) = ggit_local s" "gconsole (gload s) = gconsole s"
  by (simp_all add: gload_def gregistry_of_def)

lemma glog_fields [simp]:
  "gconfig (glog l s) = gconfig s" "gconfig_file (glog l s) = gconfig_file s"
  "gfs_files (glog l s) = gfs_files s" "ggit_global (glog l s) = ggit_global s"
  "ggit_local (glog l s) = ggit_local s" "gconsole (glog l s) = gconsole s @ [l]"
  by (simp_all add: glog_def)

lemma read_only_bin_file:
  "gconfig_file (snd (current_bin s)) = gconfig_file s"
  "gconfig_file (snd (list_bin s)) = gconfig_file s"
  "gconfig_file (snd (global_bin s)) = gconfig_file s"
  "gconfig_file (snd (key_bin i s)) = gconfig_file s"
  by (simp_all add: current_bin_def list_bin_def global_bin_def key_bin_def Let_def split: option.splits)

lemma read_only_run_bin:
  "read_only_bin cmd \<Longrightarrow> gconfig_file (snd (run_bin x cmd s)) = gconfig_file s"
  by (cases cmd) (simp_all add: run_bin_def read_only_bin_file)

lemma read_only_runs_bin:
  "list_all read_only_bin (map snd ops) \<Longrightarrow> gconfig_file (runs_bin ops s) = gconfig_file s"
  by (induction ops arbitrary: s) (auto simp: read_only_run_bin)

lemma find_ghas_id_None:
  "find (ghas_id n) us = None \<longleftrightarrow> n \<notin> set (map (Some \<circ> gid) us)"
  by (auto simp: find_None_iff ghas_id_def)

lemma current_throws:
  "fst (current s) = Threw TypeError \<longleftrightarrow>
     \<not> falsy (activeUser (config s)) \<and> activeUser (config s) \<notin> set (map (Some \<circ> uid) (users (config s)))"
proof (cases "find (has_id (activeUser (config s))) (users (config s))")
  case None
  moreover from None have "activeUser (config s) \<notin> set (map (Some \<circ> uid) (users (config s)))"
    by (simp only: find_has_id_None not_False_eq_True)
  ultimately show ?thesis by (simp add: current_def)
next
  case (Some u)
  moreover from Some have "\<not> activeUser (config s) \<notin> set (map (Some \<circ> uid) (users (config s)))"
    by (simp only: find_has_id_None[symmetric]) simp
  ultimately show ?thesis by (simp add: current_def)
qed

lemma current_bin_throws:
  "fst (current_bin s) = Threw TypeError \<longleftrightarrow>
     \<not> falsy (gactiveUser (gconfig s)) \<and> gactiveUser (gconfig s) \<notin> set (map (Some \<circ> gid) (gusers (gconfig s)))"
proof (cases "find (ghas_id (gactiveUser (gconfig s))) (gusers (gconfig s))")
  case None
  moreover from None have "gactiveUser (gconfig s) \<notin> set (map (Some \<circ> gid) (gusers (gconfig s)))"
    by (simp only: find_ghas_id_None not_False_eq_True)
  ultimately show ?thesis by (simp add: current_bin_def)
next
  case (Some u)
  moreover from Some have "\<not> gactiveUser (gconfig s) \<notin> set (map (Some \<circ> gid) (gusers (gconfig s)))"
    by (simp only: find_ghas_id_None[symmetric]) simp
  ultimately show ?thesis by (simp add: current_bin_def)
qed

lemma current_returns_or_throws: "fst (current s) = Returned \<or> fst (current s) = Threw TypeError"
  by (simp add: current_def split: option.splits)

lemma current_bin_returns_or_throws:
  "fst (current_bin s) = Returned \<or> fst (current_bin s) = Threw TypeError"
  by (simp add: current_bin_def split: option.splits)

section \<open>The ids \<open>add\<close> gives in the other edition\<close>

lemma same_users_refl [simp]: "same_users s s"
  by (simp add: same_users_def)

lemma glog_same_users [simp]: "same_users (glog l t) s = same_users t s"
  by (simp add: same_users_def)

lemma generate_key_bin_users:
  "same_users s' s \<Longrightarrow>
   ends (generate_key_bin x k s') (\<lambda>t. same_users t s) (\<lambda>t. same_users t s)"
  by (rule ends_both)
     (simp add: generate_key_bin_def same_users_def split: option.splits bool.splits prod.splits)

lemma saveGlobalGitConfig_users: "same_users s' s \<Longrightarrow> same_users (saveGlobalGitConfig x s') s"
  by (simp add: saveGlobalGitConfig_def same_users_def saveConfig_bin_def split: sum.splits)

lemma addConfig_bin_users:
  "same_users s' s \<Longrightarrow>
   ends (addConfig_bin x k v sc s') (\<lambda>t. same_users t s) (\<lambda>t. same_users t s)"
  by (rule ends_both) (simp add: addConfig_bin_def same_users_def split: scope.splits)

lemma setGitConfig_bin_users:
  "same_users s' s \<Longrightarrow>
   ends (setGitConfig_bin x n e sc s') (\<lambda>t. same_users t s) (\<lambda>t. same_users t s)"
  unfolding setGitConfig_bin_def Let_def
  by (auto intro!: ends_then_do addConfig_bin_users saveGlobalGitConfig_users)

lemma add_bin_ends:
  "ends (add_bin x n e l s)
     (\<lambda>t. map gid (gusers (gconfig t)) = map gid (gusers (gconfig s)) @ [int (length (gusers (gconfig s))) + 1])
     (\<lambda>t. True)"
  unfolding add_bin_def Let_def
  apply (rule ends_then_do[where P' = "\<lambda>t. same_users t s"])
   apply (auto intro: ends_weaken[OF generate_key_bin_users] simp: same_users_def)[1]
  apply (rule ends_then_do[where P' = "\<lambda>t. map gid (gusers (gconfig t))
           = map gid (gusers (gconfig s)) @ [int (length (gusers (gconfig s))) + 1]"])
   apply (auto intro!: ends_weaken[OF setGitConfig_bin_users[OF same_users_refl]]
      simp: same_users_def)[1]
  apply (simp add: saveConfig_bin_def)
  done

section \<open>Aliases\<close>

lemma distinct_splice1: "distinct ys \<Longrightarrow> distinct (splice1 i ys)"
proof -
  assume d: "distinct ys"
  then have "distinct (take i ys @ drop i ys)" by simp
  then have "set (take i ys) \<inter> set (drop i ys) = {}" by (simp only: distinct_append)
  moreover have "set (drop (Suc i) ys) \<subseteq> set (drop i ys)"
    by (rule set_drop_subset_set_drop) simp
  ultimately have "set (take i ys) \<inter> set (drop (Suc i) ys) = {}" by blast
  with d show ?thesis by (simp add: splice1_def)
qed

lemma map_splice1: "map f (splice1 i xs) = splice1 i (map f xs)"
  by (simp add: splice1_def take_map drop_map)

lemma unique_add:
  "unique_aliases (add_registry x n e a c) \<longleftrightarrow> unique_aliases c \<and> a \<notin> set (map alias (users c))"
  by (auto simp: unique_aliases_def add_registry_def Let_def)

lemma unique_remove: "unique_aliases c \<Longrightarrow> unique_aliases (remove_registry userId k c)"
  by (simp add: unique_aliases_def remove_registry_def map_splice1 distinct_splice1)

lemma run_unique:
  assumes "unique_aliases (registry_of s)"
    and "case cmd of Add n e a \<Rightarrow> a \<notin> set (map alias (users (registry_of s))) | _ \<Rightarrow> True"
  shows "unique_aliases (registry_of (snd (run x cmd s)))"
proof -
  from run_registry[of x cmd s] consider
      (same) "registry_of (snd (run x cmd s)) = registry_of s"
    | (add) n e a where "cmd = Add n e a"
        "registry_of (snd (run x cmd s)) = add_registry x n e a (registry_of s)"
    | (remove) i k where "registry_of (snd (run x cmd s)) = remove_registry (parseInt i) k (registry_of s)"
    | (change) i where "registry_of (snd (run x cmd s)) = (registry_of s)\<lparr>activeUser := parseInt i\<rparr>"
    by blast
  then show ?thesis
  proof cases
    case same
    with assms(1) show ?thesis by simp
  next
    case add
    with assms show ?thesis by (simp add: unique_add)
  next
    case remove
    with assms(1) show ?thesis by (simp add: unique_remove)
  next
    case change
    with assms(1) show ?thesis by (simp add: unique_aliases_def)
  qed
qed

section \<open>The copy of the global git identity\<close>

lemma gregistry_of_file: "gconfig_file t = gconfig_file s \<Longrightarrow> gregistry_of t = gregistry_of s"
  by (simp add: gregistry_of_def gload_def)

lemma snap_gload: "original_kept N E s \<Longrightarrow> snap N E (gload s)"
  by (simp add: snap_def original_kept_def gregistry_of_def gload_def)

lemma snap_original: "snap N E t \<Longrightarrow> original_kept N E t"
  by (simp add: snap_def)

lemma snap_update [simp]:
  "snap N E (s\<lparr>gfs_files := f\<rparr>) = snap N E s"
  "snap N E (s\<lparr>gconsole := c\<rparr>) = snap N E s"
  "snap N E (s\<lparr>ggit_local := g\<rparr>) = snap N E s"
  by (simp_all add: snap_def original_kept_def gregistry_of_def gload_def)

lemma snap_glog [simp]: "snap N E (glog l t) = snap N E t"
  by (simp add: glog_def)

lemma snap_saveConfig_bin: "snap N E t \<Longrightarrow> snap N E (saveConfig_bin t)"
  by (auto simp: snap_def original_kept_def gregistry_of_def gload_def saveConfig_bin_def)

lemma generate_key_bin_snap:
  "snap N E s \<Longrightarrow> ends (generate_key_bin x k s) (snap N E) (snap N E)"
  by (rule ends_both)
     (simp add: generate_key_bin_def split: option.splits bool.splits prod.splits)

lemma unlinkSync_bin_snap:
  "snap N E s \<Longrightarrow> ends (unlinkSync_bin x p s) (snap N E) (snap N E)"
  by (rule ends_both) (simp add: unlinkSync_bin_def)

lemma caught_snap:
  "snap N E (case r of (Returned, s') \<Rightarrow> s' | (Threw err, s') \<Rightarrow> glog (m err) s') = snap N E (snd r)"
  by (cases r; cases "fst r") auto

lemma remove_keys_bin_snap: "snap N E s \<Longrightarrow> snap N E (remove_keys_bin x u s)"
  unfolding remove_keys_bin_def caught_snap
  by (rule ends_snd) (auto intro!: ends_then_do unlinkSync_bin_snap)

lemma saveGlobalGitConfig_snap:
  assumes "reads_ok x" and "snap N E s" and "globalConfig (gconfig s) = None"
  shows "snapped N E (saveGlobalGitConfig x s)"
proof -
  from assms(2,3) have store: "ggit_global s ''user.name'' = Some N" "ggit_global s ''user.email'' = Some E"
    by (auto simp: snap_def original_kept_def)
  with assms(1) have "\<not> getConfig_throws x (ggit_global s) ''user.name''"
    "\<not> getConfig_throws x (ggit_global s) ''user.email''"
    by (simp_all add: reads_ok_def)
  with store show ?thesis
    by (simp add: saveGlobalGitConfig_def getConfig_def snapped_def snap_def original_kept_def
        original_def gregistry_of_def gload_def saveConfig_bin_def)
qed

lemma addConfig_bin_snapped:
  "snapped N E s \<Longrightarrow> ends (addConfig_bin x k v sc s) (snapped N E) (snapped N E)"
  by (rule ends_both)
     (auto simp: addConfig_bin_def snapped_def snap_def original_kept_def gregistry_of_def gload_def
        split: scope.splits)

lemma setGitConfig_bin_snap:
  assumes "reads_ok x" and "snap N E s"
  shows "ends (setGitConfig_bin x n e sc s) (snap N E) (snap N E)"
proof -
  have "snapped N E (if globalConfig (gconfig s) = None then saveGlobalGitConfig x s else s)"
    using assms saveGlobalGitConfig_snap[of x N E s] by (simp add: snapped_def)
  then have "ends (setGitConfig_bin x n e sc s) (snapped N E) (snapped N E)"
    unfolding setGitConfig_bin_def Let_def
    by (auto intro!: ends_then_do addConfig_bin_snapped)
  then show ?thesis by (rule ends_weaken) (simp_all add: snapped_def)
qed

lemma snap_users:
  "snap N E s \<Longrightarrow> globalConfig c = globalConfig (gconfig s) \<Longrightarrow> snap N E (s\<lparr>gconfig := c\<rparr>)"
  by (simp add: snap_def original_kept_def gregistry_of_def gload_def)

lemma add_bin_snap:
  assumes "reads_ok x" and "snap N E s"
  shows "ends (add_bin x n e l s) (snap N E) (snap N E)"
  unfolding add_bin_def Let_def
  apply (rule ends_then_do[where P' = "snap N E"])
   apply (simp add: generate_key_bin_snap assms)
  apply (rule ends_then_do[where P' = "snap N E"])
   apply (auto intro!: setGitConfig_bin_snap assms snap_users)[1]
  apply (simp add: snap_saveConfig_bin)
  done

lemma remove_bin_snap:
  assumes "snap N E s"
  shows "ends (remove_bin x i s) (snap N E) (snap N E)"
proof (cases "findIndex (ghas_id (parseInt i)) (gusers (gconfig s))")
  case None
  with assms show ?thesis by (simp add: remove_bin_def)
next
  case (Some k)
  show ?thesis
    unfolding remove_bin_def Let_def Some option.case
    apply (rule ends_then_do[where P' = "snap N E"])
     apply (cases "gconfirm x"; cases "the (gconfirm x)")
       apply (auto simp: assms remove_keys_bin_snap)[4]
    apply (auto intro!: snap_saveConfig_bin snap_users)
    done
qed

lemma change_bin_snap:
  assumes "reads_ok x" and "snap N E s"
  shows "ends (change_bin x i l s) (snap N E) (snap N E)"
proof (cases "find (ghas_id (parseInt i)) (gusers (gconfig s))")
  case None
  with assms show ?thesis by (simp add: change_bin_def)
next
  case (Some u)
  show ?thesis
    unfolding change_bin_def Let_def Some option.case
    apply (rule ends_then_do[where P' = "snap N E"])
     apply (auto intro!: setGitConfig_bin_snap assms snap_users)[1]
    apply (simp add: snap_saveConfig_bin)
    done
qed

lemma reading_bin_snap:
  assumes "snap N E s"
  shows "ends (current_bin s) (snap N E) (snap N E)"
    and "ends (list_bin s) (snap N E) (snap N E)"
    and "ends (global_bin s) (snap N E) (snap N E)"
    and "ends (key_bin i s) (snap N E) (snap N E)"
  using assms
  by (auto simp: current_bin_def list_bin_def global_bin_def key_bin_def Let_def
      split: option.splits)

lemma exec_bin_snap:
  assumes "reads_ok x" and "snap N E s"
  shows "ends (exec_bin x cmd s) (snap N E) (snap N E)"
  using assms
  by (cases cmd) (simp_all add: add_bin_snap remove_bin_snap change_bin_snap reading_bin_snap)

lemma run_bin_original:
  assumes "reads_ok x" and "original_kept N E s"
  shows "original_kept N E (snd (run_bin x cmd s))"
  unfolding run_bin_def
  by (rule snap_original, rule ends_snd, rule exec_bin_snap[OF assms(1) snap_gload[OF assms(2)]])

lemma runs_bin_original:
  "list_all (\<lambda>op. reads_ok (fst op)) ops \<Longrightarrow> original_kept N E s \<Longrightarrow>
     original_kept N E (runs_bin ops s)"
proof (induction ops arbitrary: s)
  case Nil
  then show ?case by simp
next
  case (Cons op ops)
  obtain x cmd where op: "op = (x, cmd)" by (cases op)
  from Cons.prems have "reads_ok x" "list_all (\<lambda>op. reads_ok (fst op)) ops"
    unfolding op by simp_all
  with Cons.IH[of "snd (run_bin x cmd s)"] run_bin_original[of x N E s cmd] Cons.prems(2)
  show ?case unfolding op by simp
qed

lemma writes_fields:
  "gconfig (snd (writes x n e sc s)) = gconfig s"
  "gconfig_file (snd (writes x n e sc s)) = gconfig_file s"
  "gconsole (snd (writes x n e sc s)) = gconsole s"
  "fst (writes x n e sc s)
     = (if gaddConfig_ok x sc ''user.name'' \<and> gaddConfig_ok x sc ''user.email'' then Returned
        else Threw GitError)"
  by (simp_all add: writes_def addConfig_bin_def split: scope.splits)

lemma writes_store:
  "gaddConfig_ok x sc ''user.name'' \<Longrightarrow> gaddConfig_ok x sc ''user.email'' \<Longrightarrow>
     git_store sc (snd (writes x n e sc s)) = (git_store sc s)(''user.name'' \<mapsto> n, ''user.email'' \<mapsto> e)"
  by (simp add: writes_def addConfig_bin_def git_store_def split: scope.splits)

lemma setGitConfig_bin_writes:
  "setGitConfig_bin x n e sc s
     = writes x n e sc (if globalConfig (gconfig s) = None then saveGlobalGitConfig x s else s)"
  by (simp add: setGitConfig_bin_def writes_def Let_def)

lemma saveGlobalGitConfig_read:
  assumes "\<not> getConfig_throws x (ggit_global s) ''user.name''"
    and "\<not> getConfig_throws x (ggit_global s) ''user.email''"
  shows "saveGlobalGitConfig x s
     = saveConfig_bin (s\<lparr>gconfig := (gconfig s)\<lparr>globalConfig :=
         Some \<lparr>saved_name = ggit_global s ''user.name'', saved_email = ggit_global s ''user.email''\<rparr>\<rparr>\<rparr>)"
  using assms by (simp add: saveGlobalGitConfig_def getConfig_def)

lemma saveGlobalGitConfig_thrown:
  assumes "getConfig_throws x (ggit_global s) ''user.name'' \<or> getConfig_throws x (ggit_global s) ''user.email''"
  shows "saveGlobalGitConfig x s = glog ''No global git config found'' s"
  using assms by (auto simp: saveGlobalGitConfig_def getConfig_def)

section \<open>The properties\<close>

text \<open>
  C1, as the code has it. \<open>add\<close> appends the record without looking at the aliases the
  registry already has, so two adds with the same alias leave two records that share it.
  What holds: if the aliases of the registry file are pairwise different, and every
  \<open>add\<close> of a sequence of runs comes with an alias that no record has at that moment,
  then the aliases are pairwise different after the sequence; a \<open>remove\<close> never breaks
  this.
\<close>

theorem aliases_unique_when_fresh:
  assumes "unique_aliases (registry_of s)" and "fresh_aliases ops s"
  shows "unique_aliases (registry_of (runs ops s))"
  using assms
proof (induction ops arbitrary: s)
  case Nil
  then show ?case by simp
next
  case (Cons op ops)
  obtain x cmd where op: "op = (x, cmd)" by (cases op)
  from Cons.prems(2) have fresh: "case cmd of Add n e a \<Rightarrow> a \<notin> set (map alias (users (registry_of s))) | _ \<Rightarrow> True"
    and rest: "fresh_aliases ops (snd (run x cmd s))"
    unfolding op by simp_all
  from run_unique[OF Cons.prems(1) fresh] have "unique_aliases (registry_of (snd (run x cmd s)))" .
  from Cons.IH[OF this rest] show ?case unfolding op by simp
qed

theorem aliases_unique_when_fresh_witness:
  "unique_aliases (registry_of empty_state)
   \<and> fresh_aliases [(demo_ext, Add ''Ann'' ''ann@example.org'' ''work''),
        (demo_ext, Add ''Bob'' ''bob@example.org'' ''home''),
        (demo_ext, Remove ''1''),
        (demo_ext, Add ''Cy'' ''cy@example.org'' ''work'')] empty_state
   \<and> unique_aliases (registry_of (runs [(demo_ext, Add ''Ann'' ''ann@example.org'' ''work''),
        (demo_ext, Add ''Bob'' ''bob@example.org'' ''home''),
        (demo_ext, Remove ''1''),
        (demo_ext, Add ''Cy'' ''cy@example.org'' ''work'')] empty_state))"
proof -
  have h: "unique_aliases (registry_of empty_state)"
    by code_simp
  have f: "fresh_aliases [(demo_ext, Add ''Ann'' ''ann@example.org'' ''work''),
        (demo_ext, Add ''Bob'' ''bob@example.org'' ''home''),
        (demo_ext, Remove ''1''),
        (demo_ext, Add ''Cy'' ''cy@example.org'' ''work'')] empty_state"
    by code_simp
  show ?thesis
    by (intro conjI h f aliases_unique_when_fresh[OF h f])
qed

theorem aliases_unique_counterexample:
  "map alias (users (registry_of (runs [(demo_ext, Add ''Ann'' ''ann@example.org'' ''work''),
        (demo_ext, Add ''Bob'' ''bob@example.org'' ''work'')] empty_state))) = [''work'', ''work'']
   \<and> \<not> unique_aliases (registry_of (runs [(demo_ext, Add ''Ann'' ''ann@example.org'' ''work''),
        (demo_ext, Add ''Bob'' ''bob@example.org'' ''work'')] empty_state))"
  by code_simp

text \<open>
  C2, the code at the failing input. On a fresh machine, \<open>add\<close> with the name
  \<open>John Doe\<close> and the alias \<open>johndoe\<close>, the prompt answered with no, leaves no stanza
  for \<open>github.com-johndoe\<close> and one for \<open>github.com-John Doe\<close>: the call that is always
  made passes the name where the alias belongs. With the prompt answered with yes the
  stanza for the alias is written too; a \<open>remove\<close> of that identity (keys removed as
  well) then takes the record out of the registry and leaves the stanza for
  \<open>github.com-johndoe\<close> in the file.
\<close>

theorem add_writes_stanza_for_name:
  "stanza_count ''johndoe'' (ssh_config_file (snd (run demo_ext
      (Add ''John Doe'' ''john@example.com'' ''johndoe'') empty_state))) = 0
   \<and> stanza_count ''John Doe'' (ssh_config_file (snd (run demo_ext
      (Add ''John Doe'' ''john@example.com'' ''johndoe'') empty_state))) = 1
   \<and> stanza_count ''johndoe'' (ssh_config_file (snd (run demo_yes
      (Add ''John Doe'' ''john@example.com'' ''johndoe'') empty_state))) = 1
   \<and> stanza_count ''johndoe'' (ssh_config_file (runs
      [(demo_yes, Add ''John Doe'' ''john@example.com'' ''johndoe''), (demo_yes, Remove ''1'')]
      empty_state)) = 1
   \<and> users (registry_of (runs
      [(demo_yes, Add ''John Doe'' ''john@example.com'' ''johndoe''), (demo_yes, Remove ''1'')]
      empty_state)) = []"
  by code_simp

text \<open>
  C3. Start from stores whose registry file has an \<open>activeUser\<close> that is \<open>null\<close> or the
  id of one of its records. After any sequence of runs of the program (\<open>add\<close>,
  \<open>remove\<close>, \<open>change\<close>, and the reading commands as well), with any answers of the
  prompt and any failures of the external tools, the \<open>activeUser\<close> of the registry file
  is again \<open>null\<close> or the id of one of its records.
\<close>

theorem activeUser_stays_valid:
  "valid_active (registry_of s) \<Longrightarrow> valid_active (registry_of (runs ops s))"
proof (induction ops arbitrary: s)
  case Nil
  then show ?case by simp
next
  case (Cons op ops)
  obtain x cmd where op: "op = (x, cmd)" by (cases op)
  from Cons.prems have "valid_active (registry_of (snd (run x cmd s)))" by (rule run_valid)
  then show ?case unfolding op by (simp add: Cons.IH)
qed

theorem activeUser_stays_valid_witness:
  "valid_active (registry_of empty_state) \<and>
   valid_active (registry_of (runs [(demo_ext, Add ''Ann'' ''ann@example.org'' ''work''),
     (demo_ext, Change ''1''), (demo_ext, Remove ''1'')] empty_state))"
proof -
  have h: "valid_active (registry_of empty_state)"
    by (simp add: valid_active_def registry_of_def load_def empty_state_def initial_config_def)
  show ?thesis
    by (intro conjI h activeUser_stays_valid[OF h])
qed

text \<open>
  C4, the code at the failing input. On a machine with no global \<open>user.name\<close> and
  \<open>user.email\<close>, where git works, the first \<open>add\<close> makes the identity active and
  calls \<open>setGitConfig\<close>. Reading the two keys does not throw, it gives \<open>null\<close> twice, so
  the \<open>catch\<close> with its \<open>No global git config found\<close> is never reached: a copy with the
  name \<open>null\<close> and the email \<open>null\<close> goes into \<open>globalConfig\<close> and into the registry
  file, and the only line printed is that of \<open>add\<close>. The command \<open>global\<close> then shows
  a saved identity \<open>null\<close>, \<open>null\<close>.
\<close>

theorem unset_identity_is_saved_as_null:
  "ggit_global empty_gstate ''user.name'' = None \<and> ggit_global empty_gstate ''user.email'' = None
   \<and> globalConfig (gregistry_of (snd (run_bin demo_gext (GAdd ''Ann'' ''ann@example.org'' False) empty_gstate)))
       = Some \<lparr>saved_name = None, saved_email = None\<rparr>
   \<and> gconsole (snd (run_bin demo_gext (GAdd ''Ann'' ''ann@example.org'' False) empty_gstate))
       = [''Added user Ann (ID: 1)'']
   \<and> gconsole (runs_bin [(demo_gext, GAdd ''Ann'' ''ann@example.org'' False), (demo_gext, GGlobal)]
        empty_gstate)
       = [''Added user Ann (ID: 1)'', ''Saved global git config:'', ''Name: null'', ''Email: null'']"
  by code_simp

text \<open>
  What \<open>setGitConfig\<close> of that edition does in any environment. If the registry holds
  no copy and the two reads do not throw, the global \<open>user.name\<close> and \<open>user.email\<close> as
  they are before the writes go into \<open>globalConfig\<close> and into the registry file. If the
  registry holds a copy, it stays. If the registry holds no copy and a read throws, it
  prints \<open>No global git config found\<close>, stores nothing, and goes on to the writes; the
  call returns exactly when they succeed. Over a sequence of runs in which git answers
  for the keys that are set: the developer's identity \<open>N\<close>, \<open>E\<close> is still the global
  one while the file holds no copy, and a copy the file holds is \<open>N\<close>, \<open>E\<close>.
\<close>

theorem snapshot_before_first_overwrite:
  "(globalConfig (gconfig s) = None
      \<and> \<not> getConfig_throws x (ggit_global s) ''user.name''
      \<and> \<not> getConfig_throws x (ggit_global s) ''user.email''
    \<longrightarrow> globalConfig (gconfig (snd (setGitConfig_bin x n e sc s)))
          = Some \<lparr>saved_name = ggit_global s ''user.name'', saved_email = ggit_global s ''user.email''\<rparr>
        \<and> gconfig_file (snd (setGitConfig_bin x n e sc s)) = Some (gconfig (snd (setGitConfig_bin x n e sc s))))
   \<and> (globalConfig (gconfig s) = Some g
    \<longrightarrow> globalConfig (gconfig (snd (setGitConfig_bin x n e sc s))) = Some g
        \<and> gconfig_file (snd (setGitConfig_bin x n e sc s)) = gconfig_file s)
   \<and> (globalConfig (gconfig s) = None
      \<and> (getConfig_throws x (ggit_global s) ''user.name'' \<or> getConfig_throws x (ggit_global s) ''user.email'')
    \<longrightarrow> globalConfig (gconfig (snd (setGitConfig_bin x n e sc s))) = None
        \<and> gconfig_file (snd (setGitConfig_bin x n e sc s)) = gconfig_file s
        \<and> gconsole (snd (setGitConfig_bin x n e sc s)) = gconsole s @ [''No global git config found'']
        \<and> fst (setGitConfig_bin x n e sc s)
            = (if gaddConfig_ok x sc ''user.name'' \<and> gaddConfig_ok x sc ''user.email'' then Returned
               else Threw GitError)
        \<and> (if gaddConfig_ok x sc ''user.name'' \<and> gaddConfig_ok x sc ''user.email''
            then git_store sc (snd (setGitConfig_bin x n e sc s)) ''user.name'' = Some n
               \<and> git_store sc (snd (setGitConfig_bin x n e sc s)) ''user.email'' = Some e
            else True))
   \<and> (list_all (\<lambda>op. reads_ok (fst op)) ops \<and> original_kept N E s0
    \<longrightarrow> original_kept N E (runs_bin ops s0))"
proof -
  have first: "globalConfig (gconfig (snd (setGitConfig_bin x n e sc s)))
          = Some \<lparr>saved_name = ggit_global s ''user.name'', saved_email = ggit_global s ''user.email''\<rparr>
        \<and> gconfig_file (snd (setGitConfig_bin x n e sc s)) = Some (gconfig (snd (setGitConfig_bin x n e sc s)))"
    if "globalConfig (gconfig s) = None" "\<not> getConfig_throws x (ggit_global s) ''user.name''"
      "\<not> getConfig_throws x (ggit_global s) ''user.email''"
    using that
    by (simp add: setGitConfig_bin_writes writes_fields saveGlobalGitConfig_read saveConfig_bin_def)
  have later: "globalConfig (gconfig (snd (setGitConfig_bin x n e sc s))) = Some g
        \<and> gconfig_file (snd (setGitConfig_bin x n e sc s)) = gconfig_file s"
    if "globalConfig (gconfig s) = Some g"
    using that by (simp add: setGitConfig_bin_writes writes_fields)
  have soft: "globalConfig (gconfig (snd (setGitConfig_bin x n e sc s))) = None
        \<and> gconfig_file (snd (setGitConfig_bin x n e sc s)) = gconfig_file s
        \<and> gconsole (snd (setGitConfig_bin x n e sc s)) = gconsole s @ [''No global git config found'']
        \<and> fst (setGitConfig_bin x n e sc s)
            = (if gaddConfig_ok x sc ''user.name'' \<and> gaddConfig_ok x sc ''user.email'' then Returned
               else Threw GitError)
        \<and> (if gaddConfig_ok x sc ''user.name'' \<and> gaddConfig_ok x sc ''user.email''
            then git_store sc (snd (setGitConfig_bin x n e sc s)) ''user.name'' = Some n
               \<and> git_store sc (snd (setGitConfig_bin x n e sc s)) ''user.email'' = Some e
            else True)"
    if "globalConfig (gconfig s) = None"
      "getConfig_throws x (ggit_global s) ''user.name'' \<or> getConfig_throws x (ggit_global s) ''user.email''"
    using that
    by (simp add: setGitConfig_bin_writes writes_fields writes_store saveGlobalGitConfig_thrown)
  have life: "original_kept N E (runs_bin ops s0)"
    if "list_all (\<lambda>op. reads_ok (fst op)) ops" "original_kept N E s0"
    using that by (rule runs_bin_original)
  from first later soft life show ?thesis by blast
qed

theorem snapshot_before_first_overwrite_witness:
  "globalConfig (gconfig dev_gstate) = None
   \<and> globalConfig (gconfig (snd (setGitConfig_bin demo_gext ''Ann'' ''ann@example.org'' Global dev_gstate)))
       = Some \<lparr>saved_name = Some ''Dev'', saved_email = Some ''dev@example.org''\<rparr>
   \<and> globalConfig (gconfig (snd (setGitConfig_bin demo_gext ''Bob'' ''bob@example.org'' Global
        (snd (setGitConfig_bin demo_gext ''Ann'' ''ann@example.org'' Global dev_gstate)))))
       = Some \<lparr>saved_name = Some ''Dev'', saved_email = Some ''dev@example.org''\<rparr>
   \<and> getConfig_throws no_git_gext (ggit_global empty_gstate) ''user.name''
   \<and> globalConfig (gconfig (snd (setGitConfig_bin no_git_gext ''Ann'' ''ann@example.org'' Global empty_gstate))) = None
   \<and> fst (setGitConfig_bin no_git_gext ''Ann'' ''ann@example.org'' Global empty_gstate) = Threw GitError
   \<and> gconsole (snd (setGitConfig_bin no_git_gext ''Ann'' ''ann@example.org'' Global empty_gstate))
       = [''No global git config found'']
   \<and> list_all (\<lambda>op. reads_ok (fst op)) two_changes
   \<and> original_kept ''Dev'' ''dev@example.org'' dev_gstate
   \<and> original_kept ''Dev'' ''dev@example.org'' (runs_bin two_changes dev_gstate)
   \<and> globalConfig (gregistry_of (runs_bin two_changes dev_gstate))
       = Some \<lparr>saved_name = Some ''Dev'', saved_email = Some ''dev@example.org''\<rparr>
   \<and> ggit_global (runs_bin two_changes dev_gstate) ''user.name'' = Some ''Bob''"
proof -
  let ?s1 = "snd (setGitConfig_bin demo_gext ''Ann'' ''ann@example.org'' Global dev_gstate)"
  have a: "globalConfig (gconfig dev_gstate) = None"
    "\<not> getConfig_throws demo_gext (ggit_global dev_gstate) ''user.name''"
    "\<not> getConfig_throws demo_gext (ggit_global dev_gstate) ''user.email''"
    "ggit_global dev_gstate ''user.name'' = Some ''Dev''"
    "ggit_global dev_gstate ''user.email'' = Some ''dev@example.org''"
    by (simp_all add: dev_gstate_def empty_gstate_def initial_gconfig_def demo_gext_def)
  have b: "globalConfig (gconfig ?s1) = Some \<lparr>saved_name = Some ''Dev'', saved_email = Some ''dev@example.org''\<rparr>"
    using snapshot_before_first_overwrite[of dev_gstate demo_gext "''Ann''" "''ann@example.org''" Global] a
    by simp
  have c: "globalConfig (gconfig empty_gstate) = None"
    "getConfig_throws no_git_gext (ggit_global empty_gstate) ''user.name''"
    "\<not> gaddConfig_ok no_git_gext Global ''user.name''"
    "gconsole empty_gstate = []"
    by (simp_all add: empty_gstate_def initial_gconfig_def no_git_gext_def demo_gext_def)
  have r: "reads_ok demo_gext"
    by (simp add: reads_ok_def demo_gext_def)
  then have d: "list_all (\<lambda>op. reads_ok (fst op)) two_changes"
    by (simp add: two_changes_def)
  have e: "original_kept ''Dev'' ''dev@example.org'' dev_gstate"
    by (simp add: original_kept_def gregistry_of_def gload_def dev_gstate_def empty_gstate_def
        initial_gconfig_def)
  have f: "globalConfig (gregistry_of (runs_bin two_changes dev_gstate))
       = Some \<lparr>saved_name = Some ''Dev'', saved_email = Some ''dev@example.org''\<rparr>"
    "ggit_global (runs_bin two_changes dev_gstate) ''user.name'' = Some ''Bob''"
    by code_simp+
  from snapshot_before_first_overwrite[of ?s1 demo_gext "''Bob''" "''bob@example.org''" Global
      "\<lparr>saved_name = Some ''Dev'', saved_email = Some ''dev@example.org''\<rparr>"] b
  have g: "globalConfig (gconfig (snd (setGitConfig_bin demo_gext ''Bob'' ''bob@example.org'' Global ?s1)))
       = Some \<lparr>saved_name = Some ''Dev'', saved_email = Some ''dev@example.org''\<rparr>"
    by simp
  from snapshot_before_first_overwrite[of empty_gstate no_git_gext "''Ann''" "''ann@example.org''" Global] c
  have h: "globalConfig (gconfig (snd (setGitConfig_bin no_git_gext ''Ann'' ''ann@example.org'' Global empty_gstate))) = None"
    "fst (setGitConfig_bin no_git_gext ''Ann'' ''ann@example.org'' Global empty_gstate) = Threw GitError"
    "gconsole (snd (setGitConfig_bin no_git_gext ''Ann'' ''ann@example.org'' Global empty_gstate))
       = [''No global git config found'']"
    by simp_all
  from snapshot_before_first_overwrite[of _ _ _ _ _ _ two_changes "''Dev''" "''dev@example.org''" dev_gstate] d e
  have i: "original_kept ''Dev'' ''dev@example.org'' (runs_bin two_changes dev_gstate)"
    by blast
  from a(1) b g c(2) h d e i f show ?thesis by blast
qed

text \<open>
  C5, the code at the failing input. The SSH client configuration that
  \<open>updateSSHConfig\<close> writes for the alias \<open>work\<close> on a fresh machine is the stanza alone,
  starting with its header. Removing the alias \<open>work\<close> from that file leaves it as it
  is, the stanza for \<open>work\<close> still there: the pattern asks for a newline before the
  header, and the first line of a file has none. And removing the alias \<open>jo\<close> from a
  file with a stanza for \<open>john\<close> deletes that stanza, whose header starts with what the
  pattern looks for.
\<close>

theorem first_stanza_is_not_removed:
  "ssh_config_file (snd (updateSSHConfig demo_ext ''work'' ''/home/dev/.ssh/id_rsa_gitmt_work'' False empty_state))
     = Some ''Host github.com-work\<newline>    HostName github.com\<newline>    User git\<newline>    IdentityFile /home/dev/.ssh/id_rsa_gitmt_work\<newline>    IdentitiesOnly yes\<newline>''
   \<and> ssh_config_file (snd (updateSSHConfig demo_ext ''work'' [] True
        (empty_state\<lparr>ssh_config_file := Some ''Host github.com-work\<newline>    HostName github.com\<newline>    User git\<newline>    IdentityFile /home/dev/.ssh/id_rsa_gitmt_work\<newline>    IdentitiesOnly yes\<newline>''\<rparr>)))
     = Some ''Host github.com-work\<newline>    HostName github.com\<newline>    User git\<newline>    IdentityFile /home/dev/.ssh/id_rsa_gitmt_work\<newline>    IdentitiesOnly yes\<newline>''
   \<and> stanza_count ''work'' (Some ''Host github.com-work\<newline>    HostName github.com\<newline>    User git\<newline>    IdentityFile /home/dev/.ssh/id_rsa_gitmt_work\<newline>    IdentitiesOnly yes\<newline>'') = 1
   \<and> ssh_config_file (snd (updateSSHConfig demo_ext ''jo'' [] True
        (empty_state\<lparr>ssh_config_file := Some ''Host example.org\<newline>    User me\<newline>\<newline>Host github.com-john\<newline>    HostName github.com\<newline>    User git\<newline>    IdentityFile /home/dev/.ssh/id_rsa_gitmt_john\<newline>    IdentitiesOnly yes\<newline>''\<rparr>)))
     = Some ''Host example.org\<newline>    User me\<newline>''"
  by code_simp

text \<open>
  C6. When \<open>add\<close> returns, the id of the record it appended is the number of records
  there were plus one, in both editions. So ids repeat: add two identities, remove the
  first, add a third, and the two records left both have the id 2.
\<close>

theorem next_id_is_count_plus_one:
  "(fst (add x n e a s) = Returned \<longrightarrow>
      map uid (users (config (snd (add x n e a s))))
        = map uid (users (config s)) @ [int (length (users (config s))) + 1])
   \<and> (fst (add_bin gx n e l gs) = Returned \<longrightarrow>
      map gid (gusers (gconfig (snd (add_bin gx n e l gs))))
        = map gid (gusers (gconfig gs)) @ [int (length (gusers (gconfig gs))) + 1])
   \<and> map uid (users (registry_of (runs
        [(demo_ext, Add ''Ann'' ''ann@example.org'' ''work''),
         (demo_ext, Add ''Bob'' ''bob@example.org'' ''home''),
         (demo_ext, Remove ''1''),
         (demo_ext, Add ''Cy'' ''cy@example.org'' ''lab'')] empty_state))) = [2, 2]
   \<and> map gid (gusers (gregistry_of (runs_bin
        [(demo_gext, GAdd ''Ann'' ''ann@example.org'' False),
         (demo_gext, GAdd ''Bob'' ''bob@example.org'' False),
         (demo_gext, GRemove ''1''),
         (demo_gext, GAdd ''Cy'' ''cy@example.org'' False)] empty_gstate))) = [2, 2]"
proof -
  have a: "fst (add x n e a s) = Returned \<longrightarrow>
      map uid (users (config (snd (add x n e a s))))
        = map uid (users (config s)) @ [int (length (users (config s))) + 1]"
    using ends_fst[OF add_ends[of x n e a s]] by (auto simp: add_registry_def Let_def)
  have b: "fst (add_bin gx n e l gs) = Returned \<longrightarrow>
      map gid (gusers (gconfig (snd (add_bin gx n e l gs))))
        = map gid (gusers (gconfig gs)) @ [int (length (gusers (gconfig gs))) + 1]"
    using ends_fst[OF add_bin_ends[of gx n e l gs]] by auto
  have c: "map uid (users (registry_of (runs
        [(demo_ext, Add ''Ann'' ''ann@example.org'' ''work''),
         (demo_ext, Add ''Bob'' ''bob@example.org'' ''home''),
         (demo_ext, Remove ''1''),
         (demo_ext, Add ''Cy'' ''cy@example.org'' ''lab'')] empty_state))) = [2, 2]"
    by code_simp
  have d: "map gid (gusers (gregistry_of (runs_bin
        [(demo_gext, GAdd ''Ann'' ''ann@example.org'' False),
         (demo_gext, GAdd ''Bob'' ''bob@example.org'' False),
         (demo_gext, GRemove ''1''),
         (demo_gext, GAdd ''Cy'' ''cy@example.org'' False)] empty_gstate))) = [2, 2]"
    by code_simp
  from a b c d show ?thesis by blast
qed

theorem next_id_is_count_plus_one_witness:
  "fst (add demo_ext ''Bob'' ''bob@example.org'' ''home'' one_user_state) = Returned
   \<and> map uid (users (config (snd (add demo_ext ''Bob'' ''bob@example.org'' ''home'' one_user_state)))) = [1, 2]
   \<and> fst (add_bin demo_gext ''Bob'' ''bob@example.org'' False empty_gstate) = Returned
   \<and> map gid (gusers (gconfig (snd (add_bin demo_gext ''Bob'' ''bob@example.org'' False empty_gstate)))) = [1]"
proof -
  have h: "fst (add demo_ext ''Bob'' ''bob@example.org'' ''home'' one_user_state) = Returned"
    by code_simp
  have g: "fst (add_bin demo_gext ''Bob'' ''bob@example.org'' False empty_gstate) = Returned"
    by code_simp
  have u: "map uid (users (config one_user_state)) = [1]" "int (length (users (config one_user_state))) + 1 = 2"
    "map gid (gusers (gconfig empty_gstate)) = []" "int (length (gusers (gconfig empty_gstate))) + 1 = 1"
    by (simp_all add: one_user_state_def ann_def empty_gstate_def initial_gconfig_def)
  from next_id_is_count_plus_one[of demo_ext "''Bob''" "''bob@example.org''" "''home''" one_user_state
      demo_gext False empty_gstate] h g
  show ?thesis by (simp add: u)
qed

text \<open>
  C7. \<open>remove\<close> with an id that no record has (\<open>NaN\<close> included) returns without an
  exception, prints \<open>No user found with ID ...\<close>, and changes nothing else: not the
  registry in memory, not the registry file, not the SSH client configuration, the key
  files or the git configuration.
\<close>

theorem remove_unknown_id:
  assumes "parseInt idArg \<notin> set (map (Some \<circ> uid) (users (config s)))"
  shows "fst (remove x idArg s) = Returned
     \<and> config (snd (remove x idArg s)) = config s
     \<and> config_file (snd (remove x idArg s)) = config_file s
     \<and> ssh_config_file (snd (remove x idArg s)) = ssh_config_file s
     \<and> fs_files (snd (remove x idArg s)) = fs_files s
     \<and> git_global (snd (remove x idArg s)) = git_global s
     \<and> console (snd (remove x idArg s))
         = console s @ [''No user found with ID '' @ show_number (parseInt idArg)]"
proof -
  from assms have "findIndex (has_id (parseInt idArg)) (users (config s)) = None"
    by (simp only: findIndex_has_id_None not_False_eq_True)
  then show ?thesis by (simp add: remove_def Let_def)
qed

theorem remove_unknown_id_witness:
  "parseInt ''7'' \<notin> set (map (Some \<circ> uid) (users (config one_user_state)))
   \<and> fst (remove demo_ext ''7'' one_user_state) = Returned
   \<and> config_file (snd (remove demo_ext ''7'' one_user_state)) = config_file one_user_state
   \<and> console (snd (remove demo_ext ''7'' one_user_state)) = [''No user found with ID 7'']"
proof -
  have h: "parseInt ''7'' \<notin> set (map (Some \<circ> uid) (users (config one_user_state)))"
    by (simp add: parseInt_7 one_user_state_def ann_def)
  have c: "console one_user_state = []" "show_number (Some 7) = ''7''"
    by (simp add: one_user_state_def empty_state_def, code_simp)
  show ?thesis
    using h remove_unknown_id[OF h, of demo_ext] by (simp add: parseInt_7 c)
qed

text \<open>
  C8. A sequence of runs of the reading commands (\<open>list\<close>, \<open>current\<close>, \<open>key\<close>, and
  \<open>global\<close> in the edition that has it) leaves the registry file as it was, whatever
  they print and whether or not they throw.
\<close>

theorem reading_commands_keep_file:
  "(list_all read_only (map snd ops) \<longrightarrow> config_file (runs ops s) = config_file s)
   \<and> (list_all read_only_bin (map snd gops) \<longrightarrow> gconfig_file (runs_bin gops gs) = gconfig_file gs)"
  by (simp add: read_only_runs read_only_runs_bin)

theorem reading_commands_keep_file_witness:
  "list_all read_only (map snd [(demo_ext, List), (demo_ext, Current), (demo_ext, Key ''1''), (demo_ext, List)])
   \<and> config_file (runs [(demo_ext, List), (demo_ext, Current), (demo_ext, Key ''1''), (demo_ext, List)]
        one_user_state) = config_file one_user_state
   \<and> list_all read_only_bin (map snd [(demo_gext, GList), (demo_gext, GGlobal), (demo_gext, GCurrent),
        (demo_gext, GKey ''1'')])
   \<and> gconfig_file (runs_bin [(demo_gext, GList), (demo_gext, GGlobal), (demo_gext, GCurrent),
        (demo_gext, GKey ''1'')] empty_gstate) = gconfig_file empty_gstate"
proof -
  have h: "list_all read_only (map snd [(demo_ext, List), (demo_ext, Current), (demo_ext, Key ''1''), (demo_ext, List)])"
    by simp
  have g: "list_all read_only_bin (map snd [(demo_gext, GList), (demo_gext, GGlobal), (demo_gext, GCurrent),
        (demo_gext, GKey ''1'')])"
    by simp
  from reading_commands_keep_file[of "[(demo_ext, List), (demo_ext, Current), (demo_ext, Key ''1''), (demo_ext, List)]"
      one_user_state "[(demo_gext, GList), (demo_gext, GGlobal), (demo_gext, GCurrent), (demo_gext, GKey ''1'')]"
      empty_gstate] h g
  show ?thesis by blast
qed

text \<open>
  C9. \<open>current\<close> reads the fields of the record it looked up without checking that
  there is one. If \<open>activeUser\<close> is \<open>null\<close> or the id of a record, it returns; on a
  registry whose \<open>activeUser\<close> is the id of no record (\<open>dangling_state\<close>) it throws a
  \<open>TypeError\<close>. Both editions.
\<close>

theorem current_dereference:
  "(valid_active (config s) \<longrightarrow> fst (current s) = Returned)
   \<and> (gvalid_active (gconfig gs) \<longrightarrow> fst (current_bin gs) = Returned)
   \<and> \<not> valid_active (config dangling_state) \<and> fst (current dangling_state) = Threw TypeError
   \<and> \<not> gvalid_active (gconfig dangling_gstate) \<and> fst (current_bin dangling_gstate) = Threw TypeError"
proof -
  have a: "valid_active (config s) \<longrightarrow> fst (current s) = Returned"
    using current_returns_or_throws[of s] current_throws[of s]
    by (auto simp: valid_active_def falsy_def)
  have b: "gvalid_active (gconfig gs) \<longrightarrow> fst (current_bin gs) = Returned"
    using current_bin_returns_or_throws[of gs] current_bin_throws[of gs]
    by (auto simp: gvalid_active_def falsy_def)
  have c: "\<not> valid_active (config dangling_state)" "fst (current dangling_state) = Threw TypeError"
    by (simp_all add: current_throws valid_active_def falsy_def dangling_state_def ann_def)
  have d: "\<not> gvalid_active (gconfig dangling_gstate)" "fst (current_bin dangling_gstate) = Threw TypeError"
    by (simp_all add: current_bin_throws gvalid_active_def falsy_def dangling_gstate_def)
  from a b c d show ?thesis by blast
qed

theorem current_dereference_witness:
  "valid_active (config one_user_state) \<and> fst (current one_user_state) = Returned
   \<and> gvalid_active (gconfig empty_gstate) \<and> fst (current_bin empty_gstate) = Returned"
proof -
  have h: "valid_active (config one_user_state)"
    by (simp add: valid_active_def one_user_state_def ann_def)
  have g: "gvalid_active (gconfig empty_gstate)"
    by (simp add: gvalid_active_def empty_gstate_def initial_gconfig_def)
  from current_dereference[of one_user_state empty_gstate] h g show ?thesis by blast
qed

text \<open>
  C10, as the code has it. An id argument for which \<open>parseInt\<close> gives \<open>NaN\<close> matches no
  record: \<open>remove\<close>, \<open>change\<close> and \<open>key\<close> print \<open>No user found with ID NaN\<close> and
  change nothing else. These are exactly the arguments that, after the leading white space
  and one sign, do not start with a decimal digit (\<open>abc\<close>), or start with \<open>0x\<close> or
  \<open>0X\<close> with no hexadecimal digit after it (\<open>0x\<close>). Every other argument is read as a
  number, whatever follows its digits, and the three commands do with it what they do with
  any argument that is read as the same number: \<open>remove 1abc\<close> is \<open>remove 1\<close>.
\<close>

theorem NaN_id_not_found:
  "(parseInt idArg = None \<longleftrightarrow> no_number_prefix idArg)
   \<and> (parseInt idArg = None \<longrightarrow>
        remove x idArg s = (Returned, log ''No user found with ID NaN'' s)
      \<and> change x idArg s = (Returned, log ''No user found with ID NaN'' s)
      \<and> key idArg s = (Returned, log ''No user found with ID NaN'' s))
   \<and> (parseInt i = parseInt j \<longrightarrow>
        remove x i s = remove x j s \<and> change x i s = change x j s \<and> key i s = key j s)"
proof -
  have "findIndex (has_id None) (users (config s)) = None"
    by (simp add: findIndex_has_id_None) auto
  moreover have "find (has_id None) (users (config s)) = None"
    by (simp add: find_has_id_None) auto
  ultimately have nan: "parseInt idArg = None \<longrightarrow>
        remove x idArg s = (Returned, log ''No user found with ID NaN'' s)
      \<and> change x idArg s = (Returned, log ''No user found with ID NaN'' s)
      \<and> key idArg s = (Returned, log ''No user found with ID NaN'' s)"
    by (simp add: remove_def change_def key_def Let_def show_number_def)
  have same: "parseInt i = parseInt j \<longrightarrow>
        remove x i s = remove x j s \<and> change x i s = change x j s \<and> key i s = key j s"
    by (simp add: remove_def change_def key_def)
  from parseInt_None_iff[of idArg] nan same show ?thesis by blast
qed

theorem NaN_id_not_found_witness:
  "no_number_prefix ''abc'' \<and> parseInt ''abc'' = None \<and> \<not> numeric ''abc''
   \<and> remove demo_yes ''abc'' one_user_state = (Returned, log ''No user found with ID NaN'' one_user_state)
   \<and> change demo_yes ''abc'' one_user_state = (Returned, log ''No user found with ID NaN'' one_user_state)
   \<and> key ''abc'' one_user_state = (Returned, log ''No user found with ID NaN'' one_user_state)
   \<and> no_number_prefix ''0x'' \<and> parseInt ''0x'' = None
   \<and> remove demo_yes ''0x'' one_user_state = (Returned, log ''No user found with ID NaN'' one_user_state)
   \<and> parseInt ''1abc'' = parseInt ''1''
   \<and> remove demo_yes ''1abc'' one_user_state = remove demo_yes ''1'' one_user_state
   \<and> change demo_yes ''1abc'' one_user_state = change demo_yes ''1'' one_user_state
   \<and> key ''1abc'' one_user_state = key ''1'' one_user_state"
proof -
  have h: "no_number_prefix ''abc''" "no_number_prefix ''0x''" by code_simp+
  have n: "\<not> numeric ''abc''" by code_simp
  have p: "parseInt ''1abc'' = parseInt ''1''" by code_simp
  from NaN_id_not_found[of "''abc''" demo_yes one_user_state "''1abc''" "''1''"]
    NaN_id_not_found[of "''0x''" demo_yes one_user_state "''1abc''" "''1''"] h n p
  show ?thesis by blast
qed

theorem non_numeric_id_counterexample:
  "\<not> numeric ''1abc'' \<and> parseInt ''1abc'' = Some 1
   \<and> config_file one_user_state = Some \<lparr>users = [ann], activeUser = Some 1\<rparr>
   \<and> config_file (snd (run demo_ext (Remove ''1abc'') one_user_state))
       = Some \<lparr>users = [], activeUser = None\<rparr>"
  by code_simp

end
